theory Spec2Isabelle
  imports Main
begin

section \<open>Errors, panics and library functions used by the code\<close>

text \<open>
  A Go \<^verbatim>\<open>error\<close> value is either made by the program itself with
  \<^verbatim>\<open>fmt.Errorf\<close> or handed back by a collaborator (the remote API client, the
  cache store, the operating system).
\<close>

datatype error = Errorf string | External string

text \<open>A call either returns or panics (a nil pointer is dereferenced).\<close>

datatype 'a outcome = Return 'a | Panic

text \<open>
  \<^verbatim>\<open>fmt.Sprintf("%d", n)\<close>: the decimal digits of \<open>n\<close>, most significant first,
  with a leading minus sign for a negative number.
\<close>

definition digit :: "nat \<Rightarrow> char" where
  "digit d = ''0123456789'' ! d"

fun fmt_nat :: "nat \<Rightarrow> string" where
  "fmt_nat n = (if n < 10 then [digit n] else fmt_nat (n div 10) @ [digit (n mod 10)])"

declare fmt_nat.simps [simp del]

definition fmt_d :: "int \<Rightarrow> string" where
  "fmt_d i = (if i < 0 then CHR ''-'' # fmt_nat (nat (- i)) else fmt_nat (nat i))"

text \<open>
  \<^verbatim>\<open>strings.Replace(s, old, new, -1)\<close>: every non-overlapping instance of \<open>old\<close>
  is replaced, scanning from the left. With an empty \<open>old\<close> Go inserts \<open>new\<close> at
  the start and after every character (the program never calls it so).
\<close>

function Replace_all :: "string \<Rightarrow> string \<Rightarrow> string \<Rightarrow> string" where
  "Replace_all s old new =
     (if old = [] then new @ concat (map (\<lambda>c. c # new) s)
      else if s = [] then []
      else if take (length old) s = old
        then new @ Replace_all (drop (length old) s) old new
      else hd s # Replace_all (tl s) old new)"
  by pat_completeness auto
termination
  by (relation "measure (\<lambda>(s, old, new). length s)") auto

declare Replace_all.simps [simp del]

section \<open>The release resolver (repo/github\_release.go)\<close>

text \<open>
  What \<^verbatim>\<open>url.Parse\<close> yields: the host and the request URI (path and query) of
  the parsed address. The parser is Go's library; the functions below take it as
  a parameter.
\<close>

record url =
  Host :: string
  RequestURI :: string

type_synonym url_parse = "string \<Rightarrow> error + url"

text \<open>
  The fields of \<^verbatim>\<open>GithubRelease\<close> that the resolver reads and writes. The
  timestamp \<open>updatedAt\<close> is kept as its \<^verbatim>\<open>Unix()\<close> value; the cache store the
  struct points to is passed alongside as state of its own.
\<close>

record GithubRelease =
  owner :: string
  name :: string
  artifact :: string
  downloadURL :: string
  cacheKey :: string
  releaseID :: int
  assetID :: int
  releaseURL :: string
  releaseTag :: string
  prerelease :: bool
  updatedAt :: int

text \<open>\<^verbatim>\<open>fmt.Sprintf("%s--%d-%s", host, unix, requestURI)\<close>\<close>

definition Sprintf_key :: "string \<Rightarrow> int \<Rightarrow> string \<Rightarrow> string" where
  "Sprintf_key h t p = h @ ''--'' @ fmt_d t @ ''-'' @ p"

definition setCacheKey :: "url_parse \<Rightarrow> GithubRelease \<Rightarrow> error option \<times> GithubRelease" where
  "setCacheKey parse g =
     (case parse (downloadURL g) of
        Inl err \<Rightarrow> (Some err, g)
      | Inr u \<Rightarrow>
          (None, g\<lparr>cacheKey :=
             Replace_all (Sprintf_key (Host u) (updatedAt g) (RequestURI u)) ''/'' ''-''\<rparr>))"


subsection \<open>The remote release host\<close>

text \<open>
  The objects of the API client. Its struct fields are pointers, which the code
  dereferences without a check: a nil field is \<open>None\<close> here. A timestamp is
  kept as its \<^verbatim>\<open>Unix()\<close> value.
\<close>

record ReleaseAsset =
  asset_ID :: "int option"
  asset_Name :: "string option"
  BrowserDownloadURL :: "string option"
  UpdatedAt :: "int option"

record RepositoryRelease =
  release_ID :: "int option"
  TagName :: "string option"
  HTMLURL :: "string option"
  Draft :: "bool option"
  Assets :: "ReleaseAsset list"

text \<open>
  A reader is what \<^verbatim>\<open>io.Copy\<close> gets out of it when it reads it to the end: the
  bytes, or a read error.
\<close>

type_synonym reader = "error + string"

text \<open>
  The calls the resolver makes to the outside: the three calls of the API client
  \<^verbatim>\<open>g.cl.Repositories\<close> (by owner and repository name) and \<^verbatim>\<open>http.Get\<close>.
  \<open>DownloadReleaseAsset\<close> answers with a reader and a redirect address, which
  is empty when the reader is to be used.
\<close>

record remote =
  ListReleases :: "string \<Rightarrow> string \<Rightarrow> nat \<Rightarrow> error + RepositoryRelease list"
  GetLatestRelease :: "string \<Rightarrow> string \<Rightarrow> error + RepositoryRelease"
  DownloadReleaseAsset :: "string \<Rightarrow> string \<Rightarrow> int \<Rightarrow> error + reader \<times> string"
  http_Get :: "string \<Rightarrow> error + reader"

subsection \<open>Fetch and latest\<close>

text \<open>
  The loop of \<^verbatim>\<open>latest\<close> over the first page: a draft is skipped, at the
  first release that is not a draft the function returns \<^verbatim>\<open>r, nil\<close>. The
  result \<open>Some r\<close> is that return, \<open>None\<close> is the end of the loop.
\<close>

fun latest_loop ::
  "RepositoryRelease option \<Rightarrow> RepositoryRelease list \<Rightarrow> RepositoryRelease option option outcome"
where
  "latest_loop r [] = Return None"
| "latest_loop r (v # rest) =
     (case Draft v of
        None \<Rightarrow> Panic
      | Some d \<Rightarrow> if d then latest_loop r rest else Return (Some r))"

definition latest :: "remote \<Rightarrow> GithubRelease \<Rightarrow> (error + RepositoryRelease option) outcome" where
  "latest cl g =
     (let r = None;
          get_latest =
            (case GetLatestRelease cl (owner g) (name g) of
               Inl err \<Rightarrow> Return (Inl err)
             | Inr r' \<Rightarrow> Return (Inr (Some r')))
      in if prerelease g then
           (case ListReleases cl (owner g) (name g) 1 of
              Inl err \<Rightarrow> Return (Inl err)
            | Inr rr \<Rightarrow>
                (case latest_loop r rr of
                   Panic \<Rightarrow> Panic
                 | Return (Some res) \<Rightarrow> Return (Inr res)
                 | Return None \<Rightarrow> get_latest))
         else get_latest)"

text \<open>
  The loop of \<^verbatim>\<open>Fetch\<close> over the assets of the release: the first asset whose
  name is the configured artifact sets four fields and ends the loop.
\<close>

fun asset_loop :: "RepositoryRelease \<Rightarrow> GithubRelease \<Rightarrow> ReleaseAsset list \<Rightarrow> GithubRelease outcome" where
  "asset_loop release g [] = Return g"
| "asset_loop release g (v # rest) =
     (case asset_Name v of
        None \<Rightarrow> Panic
      | Some n \<Rightarrow>
          if n = artifact g then
            (case BrowserDownloadURL v of None \<Rightarrow> Panic | Some u \<Rightarrow>
             case TagName release of None \<Rightarrow> Panic | Some t \<Rightarrow>
             case asset_ID v of None \<Rightarrow> Panic | Some i \<Rightarrow>
             case UpdatedAt v of None \<Rightarrow> Panic | Some ts \<Rightarrow>
               Return (g\<lparr>downloadURL := u, releaseTag := t, assetID := i, updatedAt := ts\<rparr>))
          else asset_loop release g rest)"

definition Fetch :: "url_parse \<Rightarrow> remote \<Rightarrow> GithubRelease \<Rightarrow> (error option \<times> GithubRelease) outcome" where
  "Fetch parse cl g =
     (case latest cl g of
        Panic \<Rightarrow> Panic
      | Return (Inl err) \<Rightarrow> Return (Some err, g)
      | Return (Inr None) \<Rightarrow> Panic
      | Return (Inr (Some release)) \<Rightarrow>
          (case release_ID release of None \<Rightarrow> Panic | Some i \<Rightarrow>
           case HTMLURL release of None \<Rightarrow> Panic | Some u \<Rightarrow>
           case asset_loop release (g\<lparr>releaseID := i, releaseURL := u\<rparr>) (Assets release) of
             Panic \<Rightarrow> Panic
           | Return g' \<Rightarrow> Return (setCacheKey parse g')))"

subsection \<open>The cache store\<close>

text \<open>
  Modelled from the spec: the interface \<^verbatim>\<open>kvs.KVS\<close> and its file store are not
  among the sources. The spec's Cache Store is a persistent mapping from keys to
  bytes that can list its keys, with \<^verbatim>\<open>Read(key) -> bytes | NotFound\<close>,
  \<^verbatim>\<open>Write(key, bytes) -> ok | IOError\<close> and \<^verbatim>\<open>List() -> set of keys\<close>; the
  pointer \<^verbatim>\<open>current.txt\<close> is one of its entries. Whether a write or a listing
  fails is an input (\<open>fault\<close>); a failed write leaves the entries as they were.
\<close>

type_synonym kvs = "(string \<times> string) list"

definition kvs_Read :: "kvs \<Rightarrow> string \<Rightarrow> error + string" where
  "kvs_Read s k = (case map_of s k of None \<Rightarrow> Inl (External ''not found'') | Some b \<Rightarrow> Inr b)"

definition kvs_put :: "string \<Rightarrow> string \<Rightarrow> kvs \<Rightarrow> kvs" where
  "kvs_put k b s = (if k \<in> fst ` set s then map (\<lambda>(k', b'). if k' = k then (k, b) else (k', b')) s
                    else s @ [(k, b)])"

definition kvs_Write :: "error option \<Rightarrow> kvs \<Rightarrow> string \<Rightarrow> string \<Rightarrow> error option \<times> kvs" where
  "kvs_Write fault s k b = (case fault of Some err \<Rightarrow> (Some err, s) | None \<Rightarrow> (None, kvs_put k b s))"

definition kvs_List :: "error option \<Rightarrow> kvs \<Rightarrow> error + string list" where
  "kvs_List fault s = (case fault of Some err \<Rightarrow> Inl err | None \<Rightarrow> Inr (map fst s))"

text \<open>
  The calls that reach outside the process are logged in the order they are made,
  so that the number and the order of downloads and writes can be stated.
\<close>

datatype event =
    CacheRead string
  | CacheList
  | CacheWrite string string
  | DownloadAsset string string int
  | HttpGet string

record world =
  store :: kvs
  trace :: "event list"

text \<open>
  The failures of the store calls of one \<^verbatim>\<open>GetDeploySourceKey\<close>, by call
  site (each site runs at most once): the listing, the write of the downloaded
  bytes, the write of the pointer.
\<close>

record faults =
  list_err :: "error option"
  asset_write_err :: "error option"
  pointer_write_err :: "error option"

definition cache_Read :: "string \<Rightarrow> world \<Rightarrow> (error + string) \<times> world" where
  "cache_Read k w = (kvs_Read (store w) k, w\<lparr>trace := trace w @ [CacheRead k]\<rparr>)"

definition cache_List :: "error option \<Rightarrow> world \<Rightarrow> (error + string list) \<times> world" where
  "cache_List fault w = (kvs_List fault (store w), w\<lparr>trace := trace w @ [CacheList]\<rparr>)"

definition cache_Write :: "error option \<Rightarrow> string \<Rightarrow> string \<Rightarrow> world \<Rightarrow> error option \<times> world" where
  "cache_Write fault k b w =
     (case kvs_Write fault (store w) k b of
        (res, s') \<Rightarrow> (res, w\<lparr>store := s', trace := trace w @ [CacheWrite k b]\<rparr>))"

subsection \<open>download and GetDeploySourceKey\<close>

definition download :: "remote \<Rightarrow> faults \<Rightarrow> GithubRelease \<Rightarrow> world \<Rightarrow> error option \<times> world" where
  "download cl f g w0 =
     (let w1 = w0\<lparr>trace := trace w0 @ [DownloadAsset (owner g) (name g) (assetID g)]\<rparr> in
      case DownloadReleaseAsset cl (owner g) (name g) (assetID g) of
        Inl err \<Rightarrow> (Some err, w1)
      | Inr (reader, url) \<Rightarrow>
          (case (if url \<noteq> [] then
                   (http_Get cl url, w1\<lparr>trace := trace w1 @ [HttpGet url]\<rparr>)
                 else (Inr reader, w1)) of
             (Inl err, w2) \<Rightarrow> (Some err, w2)
           | (Inr reader', w2) \<Rightarrow>
               (case reader' of
                  Inl err \<Rightarrow> (Some err, w2)
                | Inr buf \<Rightarrow> cache_Write (asset_write_err f) (cacheKey g) buf w2)))"

text \<open>
  The loop of \<^verbatim>\<open>GetDeploySourceKey\<close> over the listed keys: it either returns
  the error "No need to deploy" from inside the loop, or ends with the flag
  \<open>found\<close>.
\<close>

datatype scan = NoNeed | Found bool

fun key_loop :: "string \<Rightarrow> string \<Rightarrow> string list \<Rightarrow> scan" where
  "key_loop currentSourceKey ck [] = Found False"
| "key_loop currentSourceKey ck (key # rest) =
     (if currentSourceKey = ck \<and> key = ck then NoNeed
      else if key = ck then Found True
      else key_loop currentSourceKey ck rest)"

definition GetDeploySourceKey ::
  "remote \<Rightarrow> faults \<Rightarrow> GithubRelease \<Rightarrow> world \<Rightarrow> (error + string) \<times> world" where
  "GetDeploySourceKey cl f g w0 =
     (let currentKey = ''current.txt'';
          (rd, w1) = cache_Read currentKey w0;
          currentSourceKey = (case rd of Inl _ \<Rightarrow> [] | Inr b \<Rightarrow> b);
          (ls, w2) = cache_List (list_err f) w1
      in case ls of
           Inl err \<Rightarrow> (Inl err, w2)
         | Inr list \<Rightarrow>
             (case key_loop currentSourceKey (cacheKey g) list of
                NoNeed \<Rightarrow> (Inl (Errorf ''No need to deploy''), w2)
              | Found found \<Rightarrow>
                  (case (if \<not> found then download cl f g w2 else (None, w2)) of
                     (Some err, w3) \<Rightarrow> (Inl err, w3)
                   | (None, w3) \<Rightarrow>
                       (case cache_Write (pointer_write_err f) currentKey (cacheKey g) w3 of
                          (Some err, w4) \<Rightarrow> (Inl err, w4)
                        | (None, w4) \<Rightarrow> (Inr (cacheKey g), w4)))))"


section \<open>The daemon (dewy.go)\<close>

subsection \<open>The file system under the root directory\<close>

text \<open>
  A path is the list of its elements; \<^verbatim>\<open>filepath.Join\<close> drops the empty
  ones. The file system maps a path to what stands there: a directory, a
  directory holding the extracted contents of an archive (a deployment slot), or
  a symbolic link with its target.
\<close>

type_synonym path = "string list"

definition filepath_Join :: "string list \<Rightarrow> path" where
  "filepath_Join elems = filter (\<lambda>e. e \<noteq> []) elems"

datatype node = Dir | Slot path | Symlink path

type_synonym fs = "path \<Rightarrow> node option"

text \<open>
  Whether a call of the operating system fails is an input, by call site of
  \<^verbatim>\<open>deploy\<close> and \<^verbatim>\<open>preserve\<close>.
\<close>

record os_faults =
  mkdir_err :: "error option"
  extract_err :: "error option"
  remove_err :: "error option"
  symlink_err :: "error option"

definition os_MkdirAll :: "error option \<Rightarrow> path \<Rightarrow> fs \<Rightarrow> error option \<times> fs" where
  "os_MkdirAll fault p fs =
     (case fault of
        Some err \<Rightarrow> (Some err, fs)
      | None \<Rightarrow> (None, if fs p = None then fs(p \<mapsto> Dir) else fs))"

text \<open>
  Modelled from the spec: \<^verbatim>\<open>kvs.ExtractArchive\<close> is not among the sources. It
  extracts the archive's contents into the slot, or fails on an unsupported
  or corrupt archive; nothing outside the slot is written.
\<close>

definition ExtractArchive :: "error option \<Rightarrow> path \<Rightarrow> path \<Rightarrow> fs \<Rightarrow> error option \<times> fs" where
  "ExtractArchive fault src dst fs =
     (case fault of
        Some err \<Rightarrow> (Some err, fs)
      | None \<Rightarrow> (None, fs(dst \<mapsto> Slot src)))"

definition os_Lstat :: "path \<Rightarrow> fs \<Rightarrow> error option" where
  "os_Lstat p fs = (if fs p = None then Some (External ''no such file or directory'') else None)"

definition os_Remove :: "error option \<Rightarrow> path \<Rightarrow> fs \<Rightarrow> error option \<times> fs" where
  "os_Remove fault p fs =
     (case fault of
        Some err \<Rightarrow> (Some err, fs)
      | None \<Rightarrow> (None, fs(p := None)))"

definition os_Symlink :: "error option \<Rightarrow> path \<Rightarrow> path \<Rightarrow> fs \<Rightarrow> error option \<times> fs" where
  "os_Symlink fault oldname newname fs =
     (if fs newname \<noteq> None then (Some (External ''file exists''), fs)
      else case fault of
        Some err \<Rightarrow> (Some err, fs)
      | None \<Rightarrow> (None, fs(newname \<mapsto> Symlink oldname)))"

subsection \<open>deploy and preserve\<close>

datatype command = SERVER | ASSETS

text \<open>
  The fields of \<^verbatim>\<open>Dewy\<close> that the cycle reads and writes; \<open>cache_dir\<close> is what
  \<^verbatim>\<open>d.cache.GetDir()\<close> returns.
\<close>

record Dewy =
  config_Command :: command
  cache_dir :: string
  isServerRunning :: bool
  root :: string

definition releasesDir :: string where
  "releasesDir = ''releases''"

definition symlinkDir :: string where
  "symlinkDir = ''current''"

text \<open>
  \<^verbatim>\<open>New\<close>: the working directory is asked of the operating system, and a
  failure there panics.
\<close>

definition New :: "command \<Rightarrow> string \<Rightarrow> error + string \<Rightarrow> Dewy outcome" where
  "New c kv_dir getwd =
     (case getwd of
        Inl err \<Rightarrow> Panic
      | Inr wd \<Rightarrow>
          Return \<lparr>config_Command = c, cache_dir = kv_dir, isServerRunning = False, root = wd\<rparr>)"

text \<open>\<open>now\<close> is \<^verbatim>\<open>time.Now().UTC().Format(releaseDir)\<close>.\<close>

definition preserve :: "Dewy \<Rightarrow> os_faults \<Rightarrow> string \<Rightarrow> path \<Rightarrow> fs \<Rightarrow> (error + path) \<times> fs" where
  "preserve d os now p fs =
     (let dst = filepath_Join [root d, releasesDir, now] in
      case os_MkdirAll (mkdir_err os) dst fs of
        (Some err, fs1) \<Rightarrow> (Inl err, fs1)
      | (None, fs1) \<Rightarrow>
          (case ExtractArchive (extract_err os) p dst fs1 of
             (Some err, fs2) \<Rightarrow> (Inl err, fs2)
           | (None, fs2) \<Rightarrow> (Inr dst, fs2)))"

definition deploy :: "Dewy \<Rightarrow> os_faults \<Rightarrow> string \<Rightarrow> string \<Rightarrow> fs \<Rightarrow> error option \<times> fs" where
  "deploy d os now key fs =
     (let p = filepath_Join [cache_dir d, key] in
      case preserve d os now p fs of
        (Inl err, fs1) \<Rightarrow> (Some err, fs1)
      | (Inr linkFrom, fs1) \<Rightarrow>
          (let linkTo = filepath_Join [root d, symlinkDir];
               fs2 = (if os_Lstat linkTo fs1 = None
                      then snd (os_Remove (remove_err os) linkTo fs1) else fs1)
           in case os_Symlink (symlink_err os) linkFrom linkTo fs2 of
                (Some err, fs3) \<Rightarrow> (Some err, fs3)
              | (None, fs3) \<Rightarrow> (None, fs3)))"

subsection \<open>The server life cycle and Run\<close>

text \<open>
  What one cycle gets from its collaborators: the repository's answers, the
  operating system's, and the clock's. What it does to them is logged.
\<close>

record cycle =
  fetch_err :: "error option"
  download_necessary :: bool
  download_result :: "error + string"
  release_html_url :: string
  release_tag :: string
  os_outcomes :: os_faults
  clock :: string
  signal_err :: "error option"
  record_err :: "error option"

datatype run_event =
    Notify string
  | StartStarter
  | SignalHUP
  | RecordShipping

text \<open>
  \<^verbatim>\<open>restartServer\<close> signals the process itself; \<^verbatim>\<open>startServer\<close> sets the
  flag and hands the starter to a goroutine (\<open>StartStarter\<close>), returning nil at
  once. Both hold the lock of \<^verbatim>\<open>Dewy\<close> for their whole body.
\<close>

definition restartServer :: "cycle \<Rightarrow> Dewy \<Rightarrow> error option \<times> Dewy \<times> run_event list" where
  "restartServer c d = (signal_err c, d, [SignalHUP])"

definition startServer :: "Dewy \<Rightarrow> error option \<times> Dewy \<times> run_event list" where
  "startServer d = (None, d\<lparr>isServerRunning := True\<rparr>, [StartStarter])"

definition finalizeDeploy :: "cycle \<Rightarrow> run_event list" where
  "finalizeDeploy c = [RecordShipping]"

definition Run :: "cycle \<Rightarrow> Dewy \<Rightarrow> fs \<Rightarrow> error option \<times> Dewy \<times> fs \<times> run_event list" where
  "Run c d fs =
     (case fetch_err c of
        Some err \<Rightarrow> (Some err, d, fs, [])
      | None \<Rightarrow>
          if \<not> download_necessary c then (None, d, fs, [])
          else
            (case download_result c of
               Inl err \<Rightarrow> (None, d, fs, [])
             | Inr key \<Rightarrow>
                 (let ev1 = [Notify (''New release <'' @ release_html_url c @ ''|''
                               @ release_tag c @ ''> was downloaded'')] in
                  case deploy d (os_outcomes c) (clock c) key fs of
                    (Some err, fs') \<Rightarrow> (Some err, d, fs', ev1)
                  | (None, fs') \<Rightarrow>
                      if config_Command d \<noteq> SERVER then (None, d, fs', ev1)
                      else
                        (case (if isServerRunning d
                               then (case restartServer c d of
                                       (err, d', ev) \<Rightarrow> (err, d', Notify ''Server restarting'' # ev))
                               else (case startServer d of
                                       (err, d', ev) \<Rightarrow> (err, d', Notify ''Server starting'' # ev))) of
                           (err, d', ev2) \<Rightarrow> (err, d', fs', ev1 @ ev2 @ finalizeDeploy c)))))"

text \<open>
  Whether a cycle gets through \<^verbatim>\<open>deploy\<close> without an error: the release was
  fetched, a download was necessary and succeeded, and \<^verbatim>\<open>deploy\<close> returned
  nil.
\<close>

definition deployed :: "cycle \<Rightarrow> Dewy \<Rightarrow> fs \<Rightarrow> bool" where
  "deployed c d fs =
     (case fetch_err c of
        Some err \<Rightarrow> False
      | None \<Rightarrow>
          download_necessary c \<and>
          (case download_result c of
             Inl err \<Rightarrow> False
           | Inr key \<Rightarrow> fst (deploy d (os_outcomes c) (clock c) key fs) = None))"

text \<open>
  The scheduler calls \<^verbatim>\<open>Run\<close> again and again on the same \<^verbatim>\<open>Dewy\<close>. For
  each cycle of a sequence: the flag it found, whether it deployed, the flag it
  left, and its log.
\<close>

record report =
  found_running :: bool
  did_deploy :: bool
  left_running :: bool
  events :: "run_event list"

fun Runs :: "cycle list \<Rightarrow> Dewy \<Rightarrow> fs \<Rightarrow> report list" where
  "Runs [] d fs = []"
| "Runs (c # cs) d fs =
     (case Run c d fs of
        (err, d', fs', ev) \<Rightarrow>
          \<lparr>found_running = isServerRunning d, did_deploy = deployed c d fs,
           left_running = isServerRunning d', events = ev\<rparr> # Runs cs d' fs')"

section \<open>Definitions used to state the properties\<close>

text \<open>
  \<^verbatim>\<open>NewGithubRelease\<close>: the configured fields are copied, every other field
  has Go's zero value (the zero timestamp has the Unix value \<open>-62135596800\<close>).
  The API client may fail to be made.
\<close>

definition NewGithubRelease ::
  "error option \<Rightarrow> string \<Rightarrow> string \<Rightarrow> string \<Rightarrow> bool \<Rightarrow> error + GithubRelease" where
  "NewGithubRelease cl_err c_owner c_name c_artifact c_prerelease =
     (case cl_err of
        Some err \<Rightarrow> Inl err
      | None \<Rightarrow>
          Inr \<lparr>owner = c_owner, name = c_name, artifact = c_artifact, downloadURL = [],
               cacheKey = [], releaseID = 0, assetID = 0, releaseURL = [], releaseTag = [],
               prerelease = c_prerelease, updatedAt = - 62135596800\<rparr>)"

text \<open>
  The spec's wording of the key: "every path separator rewritten to a dash".
\<close>

definition slash_to_dash :: "string \<Rightarrow> string" where
  "slash_to_dash s = map (\<lambda>c. if c = CHR ''/'' then CHR ''-'' else c) s"

text \<open>
  A resolved release and a parser for its download address, used as a concrete
  input: the artifact of the spec's scenario.
\<close>

definition example_release :: GithubRelease where
  "example_release =
     \<lparr>owner = ''k1LoW'', name = ''dewy'', artifact = ''app-linux.tar.gz'',
      downloadURL = ''https://github.com/releases/download/v1.2.3/app-linux.tar.gz'',
      cacheKey = [], releaseID = 1, assetID = 2, releaseURL = [], releaseTag = ''v1.2.3'',
      prerelease = False, updatedAt = 1672531200\<rparr>"

definition example_parse :: url_parse where
  "example_parse s =
     (if s = ''https://github.com/releases/download/v1.2.3/app-linux.tar.gz''
      then Inr \<lparr>Host = ''github.com'', RequestURI = ''/releases/download/v1.2.3/app-linux.tar.gz''\<rparr>
      else Inl (External ''parse''))"

definition key_for :: "string \<Rightarrow> string \<Rightarrow> int \<Rightarrow> string" where
  "key_for h p t =
     cacheKey (snd (setCacheKey (\<lambda>s. Inr \<lparr>Host = h, RequestURI = p\<rparr>)
       (example_release\<lparr>updatedAt := t\<rparr>)))"

subsection \<open>Reading the log\<close>

definition is_download :: "event \<Rightarrow> bool" where
  "is_download e = (case e of DownloadAsset _ _ _ \<Rightarrow> True | _ \<Rightarrow> False)"

definition is_http_get :: "event \<Rightarrow> bool" where
  "is_http_get e = (case e of HttpGet _ \<Rightarrow> True | _ \<Rightarrow> False)"

definition is_write :: "event \<Rightarrow> bool" where
  "is_write e = (case e of CacheWrite _ _ \<Rightarrow> True | _ \<Rightarrow> False)"

text \<open>The events a call added to the log.\<close>

definition added :: "world \<Rightarrow> world \<Rightarrow> event list" where
  "added w w' = drop (length (trace w)) (trace w')"

text \<open>
  What \<^verbatim>\<open>download\<close> reads from the remote host: the bytes of the reader that
  \<open>DownloadReleaseAsset\<close> returns, or of the body at the redirect address when
  one is returned; and the calls it makes for them.
\<close>

definition asset_bytes :: "remote \<Rightarrow> GithubRelease \<Rightarrow> error + string" where
  "asset_bytes cl g =
     (case DownloadReleaseAsset cl (owner g) (name g) (assetID g) of
        Inl err \<Rightarrow> Inl err
      | Inr (reader, url) \<Rightarrow>
          if url \<noteq> [] then (case http_Get cl url of Inl err \<Rightarrow> Inl err | Inr body \<Rightarrow> body)
          else reader)"

definition net_events :: "remote \<Rightarrow> GithubRelease \<Rightarrow> event list" where
  "net_events cl g =
     DownloadAsset (owner g) (name g) (assetID g) #
     (case DownloadReleaseAsset cl (owner g) (name g) (assetID g) of
        Inl err \<Rightarrow> []
      | Inr (reader, url) \<Rightarrow> if url \<noteq> [] then [HttpGet url] else [])"

text \<open>
  The current pointer as \<^verbatim>\<open>GetDeploySourceKey\<close> reads it: the bytes under
  \<^verbatim>\<open>current.txt\<close>, and the empty string when the read fails.
\<close>

definition pointer :: "kvs \<Rightarrow> string" where
  "pointer s = (case kvs_Read s ''current.txt'' of Inl _ \<Rightarrow> [] | Inr b \<Rightarrow> b)"

text \<open>
  Concrete inputs: the resolved artifact of the scenario, a remote host that
  serves its bytes (directly, through a redirect, or not at all), and three
  stores: one that holds the artifact and points to it, one that holds it and
  points to an older key, and an empty one.
\<close>

definition example_key :: string where
  "example_key = ''github.com--1672531200--releases-download-v1.2.3-app-linux.tar.gz''"

definition example_resolved :: GithubRelease where
  "example_resolved = example_release\<lparr>cacheKey := example_key\<rparr>"

definition example_remote :: remote where
  "example_remote =
     \<lparr>ListReleases = (\<lambda>ow nm page. Inr []),
      GetLatestRelease = (\<lambda>ow nm. Inl (External ''unreachable'')),
      DownloadReleaseAsset = (\<lambda>ow nm i. Inr (Inr ''archive bytes'', [])),
      http_Get = (\<lambda>u. Inl (External ''unreachable''))\<rparr>"

definition no_faults :: faults where
  "no_faults = \<lparr>list_err = None, asset_write_err = None, pointer_write_err = None\<rparr>"

definition world_current :: world where
  "world_current = \<lparr>store = [(example_key, ''archive bytes''), (''current.txt'', example_key)],
                     trace = []\<rparr>"

definition world_cached :: world where
  "world_cached = \<lparr>store = [(example_key, ''archive bytes''), (''current.txt'', ''older-key'')],
                    trace = []\<rparr>"

definition world_empty :: world where
  "world_empty = \<lparr>store = [], trace = []\<rparr>"

definition redirect_remote :: remote where
  "redirect_remote =
     example_remote\<lparr>DownloadReleaseAsset := (\<lambda>ow nm i. Inr (Inr [], ''https://objects.example/app'')),
                     http_Get := (\<lambda>u. if u = ''https://objects.example/app''
                                        then Inr (Inr ''archive bytes'')
                                        else Inl (External ''unreachable''))\<rparr>"

definition down_remote :: remote where
  "down_remote = example_remote\<lparr>DownloadReleaseAsset := (\<lambda>ow nm i. Inl (External ''unreachable''))\<rparr>"

text \<open>
  Concrete inputs for \<^verbatim>\<open>Fetch\<close>: the struct that \<open>NewGithubRelease\<close> makes
  for the artifact \<open>app-linux.tar.gz\<close>, releases of the remote host, and a
  parser that knows the empty address (Go parses it to an empty host and the
  request URI \<open>/\<close>) and the address of the scenario.
\<close>

definition example_new :: "bool \<Rightarrow> GithubRelease" where
  "example_new pre =
     \<lparr>owner = ''k1LoW'', name = ''dewy'', artifact = ''app-linux.tar.gz'', downloadURL = [],
      cacheKey = [], releaseID = 0, assetID = 0, releaseURL = [], releaseTag = [],
      prerelease = pre, updatedAt = - 62135596800\<rparr>"

definition linux_asset :: ReleaseAsset where
  "linux_asset =
     \<lparr>asset_ID = Some 2, asset_Name = Some ''app-linux.tar.gz'',
      BrowserDownloadURL = Some ''https://github.com/releases/download/v1.2.3/app-linux.tar.gz'',
      UpdatedAt = Some 1672531200\<rparr>"

definition darwin_asset :: ReleaseAsset where
  "darwin_asset =
     \<lparr>asset_ID = Some 3, asset_Name = Some ''app-darwin.tar.gz'',
      BrowserDownloadURL = Some ''https://github.com/releases/download/v1.2.3/app-darwin.tar.gz'',
      UpdatedAt = Some 1672531200\<rparr>"

definition candidate_release :: RepositoryRelease where
  "candidate_release =
     \<lparr>release_ID = Some 1, TagName = Some ''v1.2.3-rc1'',
      HTMLURL = Some ''https://github.com/k1LoW/dewy/releases/tag/v1.2.3-rc1'',
      Draft = Some False, Assets = [darwin_asset, linux_asset]\<rparr>"

definition draft_release :: RepositoryRelease where
  "draft_release = candidate_release\<lparr>release_ID := Some 7, Draft := Some True\<rparr>"

definition darwin_only_release :: RepositoryRelease where
  "darwin_only_release = candidate_release\<lparr>Assets := [darwin_asset]\<rparr>"

definition prerelease_remote :: remote where
  "prerelease_remote =
     example_remote\<lparr>ListReleases := (\<lambda>ow nm page. Inr [draft_release, candidate_release]),
                     GetLatestRelease := (\<lambda>ow nm. Inr candidate_release)\<rparr>"

definition darwin_only_remote :: remote where
  "darwin_only_remote = example_remote\<lparr>GetLatestRelease := (\<lambda>ow nm. Inr darwin_only_release)\<rparr>"

definition go_parse :: url_parse where
  "go_parse s = (if s = [] then Inr \<lparr>Host = [], RequestURI = ''/''\<rparr> else example_parse s)"

subsection \<open>The paths of deploy\<close>

text \<open>
  The three paths of \<^verbatim>\<open>deploy\<close>: the deployment slot made at time \<open>now\<close>,
  the link \<^verbatim>\<open>current\<close>, and the cached archive of a key.
\<close>

definition slot_of :: "Dewy \<Rightarrow> string \<Rightarrow> path" where
  "slot_of d now = filepath_Join [root d, releasesDir, now]"

definition link_of :: "Dewy \<Rightarrow> path" where
  "link_of d = filepath_Join [root d, symlinkDir]"

definition archive_of :: "Dewy \<Rightarrow> string \<Rightarrow> path" where
  "archive_of d key = filepath_Join [cache_dir d, key]"

text \<open>
  Concrete inputs for \<^verbatim>\<open>deploy\<close>: a daemon rooted at \<open>/opt/app\<close>, a file
  system where \<^verbatim>\<open>current\<close> links to a slot of an earlier deploy, and an
  operating system that fails nowhere.
\<close>

definition example_dewy :: Dewy where
  "example_dewy =
     \<lparr>config_Command = SERVER, cache_dir = ''/var/cache/dewy'', isServerRunning = False,
      root = ''/opt/app''\<rparr>"

definition prior_slot :: path where
  "prior_slot = [''/opt/app'', ''releases'', ''20230101T000000Z'']"

definition fs_prior :: fs where
  "fs_prior =
     (\<lambda>p. None)(prior_slot \<mapsto> Slot [''/var/cache/dewy'', ''older-key''],
                [''/opt/app'', ''current''] \<mapsto> Symlink prior_slot)"

definition os_ok :: os_faults where
  "os_ok = \<lparr>mkdir_err = None, extract_err = None, remove_err = None, symlink_err = None\<rparr>"

text \<open>
  Later cycles on the same store: the results of successive calls of
  \<^verbatim>\<open>GetDeploySourceKey\<close>, each with its own remote host, faults and resolved
  release, the store and the log passed from one to the next.
\<close>

fun resolve_again :: "(remote \<times> faults \<times> GithubRelease) list \<Rightarrow> world \<Rightarrow> (error + string) list" where
  "resolve_again [] w = []"
| "resolve_again ((cl, f, g) # rest) w =
     (case GetDeploySourceKey cl f g w of (res, w') \<Rightarrow> res # resolve_again rest w')"

text \<open>What one cycle reports, in server mode.\<close>

definition cycle_ok :: "report \<Rightarrow> bool" where
  "cycle_ok r =
     ((did_deploy r \<and> \<not> found_running r \<longrightarrow>
         left_running r \<and> StartStarter \<in> set (events r) \<and> SignalHUP \<notin> set (events r))
    \<and> (did_deploy r \<and> found_running r \<longrightarrow>
         left_running r \<and> SignalHUP \<in> set (events r) \<and> StartStarter \<notin> set (events r))
    \<and> (\<not> did_deploy r \<longrightarrow>
         left_running r = found_running r
         \<and> StartStarter \<notin> set (events r) \<and> SignalHUP \<notin> set (events r))
    \<and> (found_running r \<longrightarrow> left_running r))"

text \<open>
  Concrete inputs for the life cycle: two cycles in which a release is fetched,
  downloaded and deployed with no failure, one second apart.
\<close>

definition good_cycle :: "string \<Rightarrow> cycle" where
  "good_cycle now =
     \<lparr>fetch_err = None, download_necessary = True, download_result = Inr example_key,
      release_html_url = ''https://github.com/k1LoW/dewy/releases/tag/v1.2.3'',
      release_tag = ''v1.2.3'', os_outcomes = os_ok, clock = now, signal_err = None,
      record_err = None\<rparr>"

section \<open>Properties\<close>

subsection \<open>Library functions\<close>


lemma Replace_all_char: "Replace_all s [a] [b] = map (\<lambda>c. if c = a then b else c) s"
proof (induction s)
  case Nil
  then show ?case by (simp add: Replace_all.simps)
next
  case (Cons c s)
  then show ?case by (subst Replace_all.simps) simp
qed

lemma digit_inj: "d < 10 \<Longrightarrow> e < 10 \<Longrightarrow> digit d = digit e \<Longrightarrow> d = e"
proof -
  assume d: "d < 10" and e: "e < 10" and eq: "digit d = digit e"
  have D: "d \<in> {0,1,2,3,4,5,6,7,8,9}" using d by auto
  have E: "e \<in> {0,1,2,3,4,5,6,7,8,9}" using e by auto
  show ?thesis using D E eq by (auto simp: digit_def)
qed

lemma digit_set: "d < 10 \<Longrightarrow> digit d \<in> set ''0123456789''"
  unfolding digit_def by (rule nth_mem) simp

lemma fmt_nat_set: "set (fmt_nat n) \<subseteq> set ''0123456789''"
proof (induction n rule: fmt_nat.induct)
  case (1 n)
  show ?case
  proof (cases "n < 10")
    case True
    then show ?thesis using digit_set[of n] by (subst fmt_nat.simps) simp
  next
    case False
    have "n mod 10 < 10" by simp
    then have "digit (n mod 10) \<in> set ''0123456789''" by (rule digit_set)
    with False 1 show ?thesis by (subst fmt_nat.simps) simp
  qed
qed

lemma fmt_nat_nonempty: "fmt_nat n \<noteq> []"
  by (subst fmt_nat.simps) simp

lemma fmt_nat_inj: "fmt_nat m = fmt_nat n \<Longrightarrow> m = n"
proof (induction m arbitrary: n rule: fmt_nat.induct)
  case (1 m)
  show ?case
  proof (cases "m < 10")
    case m: True
    show ?thesis
    proof (cases "n < 10")
      case True
      with m 1(2) show ?thesis
        by (simp add: fmt_nat.simps[of m] fmt_nat.simps[of n] digit_inj)
    next
      case False
      with m 1(2) fmt_nat_nonempty[of "n div 10"] show ?thesis
        by (simp add: fmt_nat.simps[of m] fmt_nat.simps[of n])
    qed
  next
    case m: False
    show ?thesis
    proof (cases "n < 10")
      case True
      with m 1(2) fmt_nat_nonempty[of "m div 10"] show ?thesis
        by (simp add: fmt_nat.simps[of m] fmt_nat.simps[of n])
    next
      case False
      with m 1(2) have a: "fmt_nat (m div 10) = fmt_nat (n div 10)"
        and b: "digit (m mod 10) = digit (n mod 10)"
        by (simp_all add: fmt_nat.simps[of m] fmt_nat.simps[of n])
      from 1(1)[OF m a] have "m div 10 = n div 10" .
      moreover from b have "m mod 10 = n mod 10" by (intro digit_inj) simp_all
      ultimately show ?thesis by (metis div_mult_mod_eq)
    qed
  qed
qed

lemma fmt_nat_no_minus: "fmt_nat n \<noteq> CHR ''-'' # k"
proof
  assume "fmt_nat n = CHR ''-'' # k"
  then have "CHR ''-'' \<in> set (fmt_nat n)" by simp
  with fmt_nat_set[of n] show False by auto
qed

lemma fmt_d_inj: "fmt_d i = fmt_d j \<Longrightarrow> i = j"
proof -
  assume eq: "fmt_d i = fmt_d j"
  show ?thesis
  proof (cases "i < 0")
    case i: True
    show ?thesis
    proof (cases "j < 0")
      case True
      with i eq have "fmt_nat (nat (- i)) = fmt_nat (nat (- j))" by (simp add: fmt_d_def)
      then have "nat (- i) = nat (- j)" by (rule fmt_nat_inj)
      with i True show ?thesis by simp
    next
      case False
      with i eq fmt_nat_no_minus[of "nat j"] show ?thesis by (simp add: fmt_d_def) metis
    qed
  next
    case i: False
    show ?thesis
    proof (cases "j < 0")
      case True
      with i eq fmt_nat_no_minus[of "nat i"] show ?thesis by (simp add: fmt_d_def)
    next
      case False
      with i eq have "fmt_nat (nat i) = fmt_nat (nat j)" by (simp add: fmt_d_def)
      then have "nat i = nat j" by (rule fmt_nat_inj)
      with i False show ?thesis by simp
    qed
  qed
qed

lemma slash_to_dash_id: "CHR ''/'' \<notin> set s \<Longrightarrow> slash_to_dash s = s"
  unfolding slash_to_dash_def by (induction s) auto

lemma fmt_d_no_slash: "slash_to_dash (fmt_d i) = fmt_d i"
proof -
  have "CHR ''/'' \<notin> set (fmt_d i)"
    using fmt_nat_set[of "nat i"] fmt_nat_set[of "nat (- i)"]
    by (auto simp: fmt_d_def)
  then show ?thesis by (rule slash_to_dash_id)
qed

lemma slash_to_dash_append: "slash_to_dash (a @ b) = slash_to_dash a @ slash_to_dash b"
  by (simp add: slash_to_dash_def)

lemma key_shape:
  "Replace_all (Sprintf_key h t p) ''/'' ''-'' =
     slash_to_dash h @ ''--'' @ fmt_d t @ ''-'' @ slash_to_dash p"
proof -
  have "Replace_all (Sprintf_key h t p) ''/'' ''-'' = slash_to_dash (Sprintf_key h t p)"
    by (simp add: Replace_all_char slash_to_dash_def)
  also have "\<dots> = slash_to_dash h @ slash_to_dash ''--'' @ slash_to_dash (fmt_d t)
        @ slash_to_dash ''-'' @ slash_to_dash p"
    unfolding Sprintf_key_def slash_to_dash_append ..
  also have "\<dots> = slash_to_dash h @ ''--'' @ fmt_d t @ ''-'' @ slash_to_dash p"
    unfolding fmt_d_no_slash by (simp add: slash_to_dash_def)
  finally show ?thesis .
qed

lemma setCacheKey_ok:
  "parse (downloadURL g) = Inr u \<Longrightarrow>
     setCacheKey parse g =
       (None, g\<lparr>cacheKey := slash_to_dash (Host u) @ ''--'' @ fmt_d (updatedAt g) @ ''-''
                   @ slash_to_dash (RequestURI u)\<rparr>)"
  by (simp add: setCacheKey_def key_shape)

lemma fmt_d_example: "fmt_d 1672531200 = ''1672531200''"
  by (simp add: fmt_d_def fmt_nat.simps digit_def)

text \<open>
  Claim C4, as amended. The cache key that \<^verbatim>\<open>setCacheKey\<close> computes is the
  string \<open>host--<unix-timestamp>-<request-uri>\<close> with every slash rewritten to a
  dash. The request URI starts with a slash, which becomes a dash too: for host
  \<open>github.com\<close>, request URI \<open>/releases/download/v1.2.3/app-linux.tar.gz\<close> and
  Unix time \<open>1672531200\<close> the key is
  \<open>github.com--1672531200--releases-download-v1.2.3-app-linux.tar.gz\<close>, with
  two dashes after the timestamp.
\<close>

theorem C4_cache_key:
  "(parse (downloadURL g) = Inr u \<longrightarrow>
      setCacheKey parse g =
        (None, g\<lparr>cacheKey := slash_to_dash (Host u @ ''--'' @ fmt_d (updatedAt g) @ ''-''
                    @ RequestURI u)\<rparr>)) \<and>
   (parse (downloadURL g) = Inr \<lparr>Host = ''github.com'',
         RequestURI = ''/releases/download/v1.2.3/app-linux.tar.gz''\<rparr> \<longrightarrow>
      updatedAt g = 1672531200 \<longrightarrow>
      setCacheKey parse g =
        (None, g\<lparr>cacheKey :=
           ''github.com--1672531200--releases-download-v1.2.3-app-linux.tar.gz''\<rparr>))"
proof (intro conjI impI)
  assume "parse (downloadURL g) = Inr u"
  then show "setCacheKey parse g =
        (None, g\<lparr>cacheKey := slash_to_dash (Host u @ ''--'' @ fmt_d (updatedAt g) @ ''-''
                    @ RequestURI u)\<rparr>)"
    by (simp add: setCacheKey_def Replace_all_char slash_to_dash_def Sprintf_key_def)
next
  assume "parse (downloadURL g) = Inr \<lparr>Host = ''github.com'',
         RequestURI = ''/releases/download/v1.2.3/app-linux.tar.gz''\<rparr>"
    and "updatedAt g = 1672531200"
  then show "setCacheKey parse g =
        (None, g\<lparr>cacheKey :=
           ''github.com--1672531200--releases-download-v1.2.3-app-linux.tar.gz''\<rparr>)"
    by (simp add: setCacheKey_ok fmt_d_example slash_to_dash_def)
qed

text \<open>The theorem of C4 at the artifact of the scenario.\<close>

theorem C4_cache_key_witness:
  "cacheKey (snd (setCacheKey example_parse example_release)) =
     ''github.com--1672531200--releases-download-v1.2.3-app-linux.tar.gz''"
proof -
  have p: "example_parse (downloadURL example_release) = Inr \<lparr>Host = ''github.com'',
         RequestURI = ''/releases/download/v1.2.3/app-linux.tar.gz''\<rparr>"
    by (simp add: example_parse_def example_release_def)
  have t: "updatedAt example_release = 1672531200" by (simp add: example_release_def)
  from C4_cache_key[of example_parse example_release] p t show ?thesis by simp
qed

text \<open>
  Claim C4 as stated fails: the key of the scenario is not the string the spec
  gives, which has a single dash after the timestamp.
\<close>

theorem C4_counterexample:
  "cacheKey (snd (setCacheKey example_parse example_release)) \<noteq>
     ''github.com--1672531200-releases-download-v1.2.3-app-linux.tar.gz''"
proof -
  have p: "example_parse (downloadURL example_release) = Inr \<lparr>Host = ''github.com'',
         RequestURI = ''/releases/download/v1.2.3/app-linux.tar.gz''\<rparr>"
    by (simp add: example_parse_def example_release_def)
  have t: "updatedAt example_release = 1672531200" by (simp add: example_release_def)
  show ?thesis
    by (simp add: setCacheKey_ok[of example_parse example_release, OF p] t fmt_d_example
        slash_to_dash_def)
qed

lemma cacheKey_set:
  "parse (downloadURL g) = Inr u \<Longrightarrow>
     cacheKey (snd (setCacheKey parse g)) =
       slash_to_dash (Host u) @ ''--'' @ fmt_d (updatedAt g) @ ''-'' @ slash_to_dash (RequestURI u)"
  by (simp add: setCacheKey_ok)

text \<open>
  Claim C5, as amended. The key depends on the host, the request URI and the
  timestamp only: equal triples give equal keys, whatever the other fields and
  the parser are. Two triples that differ in the timestamp alone give different
  keys. Two triples that differ in the host alone, or in the request URI alone,
  give different keys exactly when the two still differ once every slash is
  rewritten to a dash; for two hosts without a slash (a parsed host has none)
  that is whenever they differ.
\<close>

theorem C5_key_determinism:
  assumes "parse (downloadURL g) = Inr u" and "parse' (downloadURL g') = Inr u'"
  shows "(Host u = Host u' \<and> RequestURI u = RequestURI u' \<and> updatedAt g = updatedAt g' \<longrightarrow>
            cacheKey (snd (setCacheKey parse g)) = cacheKey (snd (setCacheKey parse' g')))
       \<and> (Host u = Host u' \<and> RequestURI u = RequestURI u' \<and> updatedAt g \<noteq> updatedAt g' \<longrightarrow>
            cacheKey (snd (setCacheKey parse g)) \<noteq> cacheKey (snd (setCacheKey parse' g')))
       \<and> (RequestURI u = RequestURI u' \<and> updatedAt g = updatedAt g' \<longrightarrow>
            (cacheKey (snd (setCacheKey parse g)) = cacheKey (snd (setCacheKey parse' g')))
              = (slash_to_dash (Host u) = slash_to_dash (Host u')))
       \<and> (Host u = Host u' \<and> updatedAt g = updatedAt g' \<longrightarrow>
            (cacheKey (snd (setCacheKey parse g)) = cacheKey (snd (setCacheKey parse' g')))
              = (slash_to_dash (RequestURI u) = slash_to_dash (RequestURI u')))
       \<and> (CHR ''/'' \<notin> set (Host u) \<and> CHR ''/'' \<notin> set (Host u') \<and> Host u \<noteq> Host u'
            \<and> RequestURI u = RequestURI u' \<and> updatedAt g = updatedAt g' \<longrightarrow>
            cacheKey (snd (setCacheKey parse g)) \<noteq> cacheKey (snd (setCacheKey parse' g')))"
proof -
  note k = cacheKey_set[of parse g u, OF assms(1)] cacheKey_set[of parse' g' u', OF assms(2)]
  have same: "Host u = Host u' \<and> RequestURI u = RequestURI u' \<and> updatedAt g = updatedAt g' \<longrightarrow>
            cacheKey (snd (setCacheKey parse g)) = cacheKey (snd (setCacheKey parse' g'))"
    unfolding k by simp
  have time: "Host u = Host u' \<and> RequestURI u = RequestURI u' \<and> updatedAt g \<noteq> updatedAt g' \<longrightarrow>
            cacheKey (snd (setCacheKey parse g)) \<noteq> cacheKey (snd (setCacheKey parse' g'))"
    unfolding k by (auto dest: fmt_d_inj)
  have host: "RequestURI u = RequestURI u' \<and> updatedAt g = updatedAt g' \<longrightarrow>
            (cacheKey (snd (setCacheKey parse g)) = cacheKey (snd (setCacheKey parse' g')))
              = (slash_to_dash (Host u) = slash_to_dash (Host u'))"
    unfolding k by auto
  have path: "Host u = Host u' \<and> updatedAt g = updatedAt g' \<longrightarrow>
            (cacheKey (snd (setCacheKey parse g)) = cacheKey (snd (setCacheKey parse' g')))
              = (slash_to_dash (RequestURI u) = slash_to_dash (RequestURI u'))"
    unfolding k by auto
  have plain: "CHR ''/'' \<notin> set (Host u) \<and> CHR ''/'' \<notin> set (Host u') \<and> Host u \<noteq> Host u'
            \<and> RequestURI u = RequestURI u' \<and> updatedAt g = updatedAt g' \<longrightarrow>
            cacheKey (snd (setCacheKey parse g)) \<noteq> cacheKey (snd (setCacheKey parse' g'))"
    using host slash_to_dash_id[of "Host u"] slash_to_dash_id[of "Host u'"] by auto
  from same time host path plain show ?thesis by blast
qed

text \<open>
  Claim C5 as stated fails: the request URIs \<open>/a/b\<close> and \<open>/a-b\<close> differ, and
  with the same host and timestamp they get the same key.
\<close>

theorem C5_counterexample:
  "key_for ''github.com'' ''/a/b'' 1672531200 = key_for ''github.com'' ''/a-b'' 1672531200
   \<and> ''/a/b'' \<noteq> ''/a-b''"
  by (simp add: key_for_def cacheKey_set slash_to_dash_def)

text \<open>
  The theorem of C5 at concrete triples: a change of the timestamp, of the host
  and of the request URI that each change the key.
\<close>

theorem C5_key_determinism_witness:
  "key_for ''github.com'' ''/a/b'' 1672531200 = key_for ''github.com'' ''/a/b'' 1672531200
   \<and> key_for ''github.com'' ''/a/b'' 1672531200 \<noteq> key_for ''github.com'' ''/a/b'' 1672531201
   \<and> key_for ''github.com'' ''/a/b'' 1672531200 \<noteq> key_for ''example.com'' ''/a/b'' 1672531200
   \<and> key_for ''github.com'' ''/a/b'' 1672531200 \<noteq> key_for ''github.com'' ''/a/c'' 1672531200"
proof -
  let ?g = "\<lambda>t. example_release\<lparr>updatedAt := t\<rparr>"
  let ?p = "\<lambda>h p. (\<lambda>s::string. (Inr \<lparr>Host = h, RequestURI = p\<rparr> :: error + url))"
  have a: "key_for ''github.com'' ''/a/b'' 1672531200 \<noteq> key_for ''github.com'' ''/a/b'' 1672531201"
    using C5_key_determinism[of "?p ''github.com'' ''/a/b''" "?g 1672531200" _
        "?p ''github.com'' ''/a/b''" "?g 1672531201"]
    by (simp add: key_for_def)
  have b: "key_for ''github.com'' ''/a/b'' 1672531200 \<noteq> key_for ''example.com'' ''/a/b'' 1672531200"
    using C5_key_determinism[of "?p ''github.com'' ''/a/b''" "?g 1672531200" _
        "?p ''example.com'' ''/a/b''" "?g 1672531200"]
    by (simp add: key_for_def slash_to_dash_def)
  have c: "key_for ''github.com'' ''/a/b'' 1672531200 \<noteq> key_for ''github.com'' ''/a/c'' 1672531200"
    using C5_key_determinism[of "?p ''github.com'' ''/a/b''" "?g 1672531200" _
        "?p ''github.com'' ''/a/c''" "?g 1672531200"]
    by (simp add: key_for_def slash_to_dash_def)
  from a b c show ?thesis by simp
qed

subsection \<open>GetDeploySourceKey\<close>

lemma key_loop_eq:
  "key_loop cur ck list =
     (if ck \<in> set list then (if cur = ck then NoNeed else Found True) else Found False)"
  by (induction list) auto

lemma download_eq:
  "download cl f g w =
     (case asset_bytes cl g of
        Inl err \<Rightarrow> (Some err, w\<lparr>trace := trace w @ net_events cl g\<rparr>)
      | Inr buf \<Rightarrow>
          cache_Write (asset_write_err f) (cacheKey g) buf (w\<lparr>trace := trace w @ net_events cl g\<rparr>))"
  by (auto simp: download_def asset_bytes_def net_events_def Let_def
           split: sum.splits prod.splits)

lemma GetDeploySourceKey_eq:
  "GetDeploySourceKey cl f g w =
     (let w2 = w\<lparr>trace := trace w @ [CacheRead ''current.txt'', CacheList]\<rparr> in
      case kvs_List (list_err f) (store w) of
        Inl err \<Rightarrow> (Inl err, w2)
      | Inr list \<Rightarrow>
          if cacheKey g \<in> set list then
            if pointer (store w) = cacheKey g then (Inl (Errorf ''No need to deploy''), w2)
            else (case cache_Write (pointer_write_err f) ''current.txt'' (cacheKey g) w2 of
                    (Some err, w4) \<Rightarrow> (Inl err, w4)
                  | (None, w4) \<Rightarrow> (Inr (cacheKey g), w4))
          else (case download cl f g w2 of
                  (Some err, w3) \<Rightarrow> (Inl err, w3)
                | (None, w3) \<Rightarrow>
                    (case cache_Write (pointer_write_err f) ''current.txt'' (cacheKey g) w3 of
                       (Some err, w4) \<Rightarrow> (Inl err, w4)
                     | (None, w4) \<Rightarrow> (Inr (cacheKey g), w4))))"
  by (auto simp: GetDeploySourceKey_def cache_Read_def cache_List_def key_loop_eq pointer_def
        Let_def split: sum.splits prod.splits option.splits)

text \<open>
  Claim C1. When the pointer read from the store is the fresh key and the
  listing returns a list that holds the key, \<^verbatim>\<open>GetDeploySourceKey\<close> returns
  the error "No need to deploy"; it has read the pointer and listed the keys and
  done nothing else: no download, no request to a redirect address, no write,
  and the store is as it was.
\<close>

theorem C1_nothing_to_deploy:
  assumes "kvs_Read (store w) ''current.txt'' = Inr (cacheKey g)"
    and "kvs_List (list_err f) (store w) = Inr list"
    and "cacheKey g \<in> set list"
  shows "GetDeploySourceKey cl f g w =
           (Inl (Errorf ''No need to deploy''),
            w\<lparr>trace := trace w @ [CacheRead ''current.txt'', CacheList]\<rparr>)
       \<and> store (snd (GetDeploySourceKey cl f g w)) = store w
       \<and> filter is_download (added w (snd (GetDeploySourceKey cl f g w))) = []
       \<and> filter is_http_get (added w (snd (GetDeploySourceKey cl f g w))) = []
       \<and> filter is_write (added w (snd (GetDeploySourceKey cl f g w))) = []"
proof -
  have p: "pointer (store w) = cacheKey g" using assms(1) by (simp add: pointer_def)
  have r: "GetDeploySourceKey cl f g w =
           (Inl (Errorf ''No need to deploy''),
            w\<lparr>trace := trace w @ [CacheRead ''current.txt'', CacheList]\<rparr>)"
    using assms(2,3) p by (simp add: GetDeploySourceKey_eq)
  show ?thesis
    unfolding r by (simp add: added_def is_download_def is_http_get_def is_write_def)
qed

lemma example_key_neq [simp]: "example_key \<noteq> ''current.txt''" "''current.txt'' \<noteq> example_key"
  "example_key \<noteq> ''older-key''" "''older-key'' \<noteq> example_key"
  by (simp_all add: example_key_def)

text \<open>
  The theorem of C1 at a store that holds the artifact and points to it.
\<close>

theorem C1_nothing_to_deploy_witness:
  "GetDeploySourceKey example_remote no_faults example_resolved world_current =
     (Inl (Errorf ''No need to deploy''),
      world_current\<lparr>trace := [CacheRead ''current.txt'', CacheList]\<rparr>)"
proof -
  have a: "kvs_Read (store world_current) ''current.txt'' = Inr (cacheKey example_resolved)"
    by (simp add: kvs_Read_def world_current_def example_resolved_def)
  have b: "kvs_List (list_err no_faults) (store world_current) = Inr [example_key, ''current.txt'']"
    by (simp add: kvs_List_def no_faults_def world_current_def)
  have c: "cacheKey example_resolved \<in> set [example_key, ''current.txt'']"
    by (simp add: example_resolved_def)
  from C1_nothing_to_deploy[OF a b c, of example_remote] show ?thesis
    by (simp add: world_current_def)
qed

lemma map_of_kvs_put: "map_of (kvs_put k b s) k = Some b"
proof (cases "k \<in> fst ` set s")
  case True
  then have "map_of (map (\<lambda>(k', b'). if k' = k then (k, b) else (k', b')) s) k = Some b"
    by (induction s) (auto split: prod.splits)
  with True show ?thesis by (simp add: kvs_put_def)
next
  case False
  then have "map_of s k = None" by (simp add: map_of_eq_None_iff)
  with False show ?thesis by (simp add: kvs_put_def map_add_def)
qed

lemma keys_kvs_put: "set (map fst (kvs_put k b s)) = insert k (set (map fst s))"
proof (cases "k \<in> fst ` set s")
  case True
  have "map fst (map (\<lambda>(k', b'). if k' = k then (k, b) else (k', b')) s) = map fst s"
    by (induction s) auto
  then have "set (map fst (kvs_put k b s)) = set (map fst s)"
    using True by (simp only: kvs_put_def if_True)
  with True show ?thesis by auto
next
  case False
  then show ?thesis by (auto simp: kvs_put_def)
qed

lemma pointer_kvs_put: "pointer (kvs_put ''current.txt'' b s) = b"
  by (simp add: pointer_def kvs_Read_def map_of_kvs_put)

text \<open>
  Claim C2, as amended. When the listing holds the fresh key and the pointer
  differs from it, \<^verbatim>\<open>GetDeploySourceKey\<close> makes no download and no request to
  a redirect address, and writes the fresh key under \<^verbatim>\<open>current.txt\<close>. If
  that write succeeds, the fresh key is returned and the pointer reads back as
  the fresh key; if the write fails, its error is returned and the store is as
  it was.
\<close>

theorem C2_promote_cached:
  assumes "kvs_List (list_err f) (store w) = Inr list"
    and "cacheKey g \<in> set list"
    and "pointer (store w) \<noteq> cacheKey g"
  shows "(pointer_write_err f = None \<longrightarrow>
            GetDeploySourceKey cl f g w =
              (Inr (cacheKey g),
               w\<lparr>store := kvs_put ''current.txt'' (cacheKey g) (store w),
                  trace := trace w @ [CacheRead ''current.txt'', CacheList,
                                      CacheWrite ''current.txt'' (cacheKey g)]\<rparr>)
            \<and> pointer (store (snd (GetDeploySourceKey cl f g w))) = cacheKey g)
       \<and> (\<forall>err. pointer_write_err f = Some err \<longrightarrow>
            GetDeploySourceKey cl f g w =
              (Inl err,
               w\<lparr>trace := trace w @ [CacheRead ''current.txt'', CacheList,
                                      CacheWrite ''current.txt'' (cacheKey g)]\<rparr>))
       \<and> filter is_download (added w (snd (GetDeploySourceKey cl f g w))) = []
       \<and> filter is_http_get (added w (snd (GetDeploySourceKey cl f g w))) = []"
proof (cases "pointer_write_err f")
  case None
  have r: "GetDeploySourceKey cl f g w =
              (Inr (cacheKey g),
               w\<lparr>store := kvs_put ''current.txt'' (cacheKey g) (store w),
                  trace := trace w @ [CacheRead ''current.txt'', CacheList,
                                      CacheWrite ''current.txt'' (cacheKey g)]\<rparr>)"
    using assms None by (simp add: GetDeploySourceKey_eq cache_Write_def kvs_Write_def)
  show ?thesis
    unfolding r using None
    by (simp add: added_def is_download_def is_http_get_def pointer_kvs_put)
next
  case (Some err)
  have r: "GetDeploySourceKey cl f g w =
              (Inl err,
               w\<lparr>trace := trace w @ [CacheRead ''current.txt'', CacheList,
                                      CacheWrite ''current.txt'' (cacheKey g)]\<rparr>)"
    using assms Some by (simp add: GetDeploySourceKey_eq cache_Write_def kvs_Write_def)
  show ?thesis
    unfolding r using Some
    by (simp add: added_def is_download_def is_http_get_def)
qed

text \<open>
  The theorem of C2 at a store that holds the artifact and points to an older
  key, once with a pointer write that succeeds and once with one that fails.
\<close>

theorem C2_promote_cached_witness:
  "GetDeploySourceKey example_remote no_faults example_resolved world_cached =
     (Inr example_key,
      \<lparr>store = [(example_key, ''archive bytes''), (''current.txt'', example_key)],
       trace = [CacheRead ''current.txt'', CacheList, CacheWrite ''current.txt'' example_key]\<rparr>)
   \<and> GetDeploySourceKey example_remote (no_faults\<lparr>pointer_write_err := Some (External ''disk full'')\<rparr>)
        example_resolved world_cached =
     (Inl (External ''disk full''),
      world_cached\<lparr>trace := [CacheRead ''current.txt'', CacheList,
                               CacheWrite ''current.txt'' example_key]\<rparr>)"
proof -
  let ?f = "no_faults\<lparr>pointer_write_err := Some (External ''disk full'')\<rparr>"
  have a: "kvs_List (list_err no_faults) (store world_cached) = Inr [example_key, ''current.txt'']"
    "kvs_List (list_err ?f) (store world_cached) = Inr [example_key, ''current.txt'']"
    by (simp_all add: kvs_List_def no_faults_def world_cached_def)
  have b: "cacheKey example_resolved \<in> set [example_key, ''current.txt'']"
    by (simp add: example_resolved_def)
  have c: "pointer (store world_cached) \<noteq> cacheKey example_resolved"
    by (simp add: pointer_def kvs_Read_def world_cached_def example_resolved_def)
  have d: "pointer_write_err no_faults = None" "pointer_write_err ?f = Some (External ''disk full'')"
    by (simp_all add: no_faults_def)
  from C2_promote_cached[OF a(1) b c, of example_remote] d(1)
  have 1: "GetDeploySourceKey example_remote no_faults example_resolved world_cached =
     (Inr example_key,
      \<lparr>store = [(example_key, ''archive bytes''), (''current.txt'', example_key)],
       trace = [CacheRead ''current.txt'', CacheList, CacheWrite ''current.txt'' example_key]\<rparr>)"
    by (simp add: world_cached_def example_resolved_def kvs_put_def)
  from C2_promote_cached[OF a(2) b c, of example_remote] d(2)
  have 2: "GetDeploySourceKey example_remote ?f example_resolved world_cached =
     (Inl (External ''disk full''),
      world_cached\<lparr>trace := [CacheRead ''current.txt'', CacheList,
                               CacheWrite ''current.txt'' example_key]\<rparr>)"
    by (simp add: world_cached_def example_resolved_def)
  from 1 2 show ?thesis by simp
qed

text \<open>
  Claim C2 as stated fails: the fresh key is listed and is not the pointer, the
  write of the pointer fails (the disk is full), and the call returns that error
  instead of the key; the pointer is not the fresh key afterwards.
\<close>

theorem C2_counterexample:
  "cacheKey example_resolved \<in> set (map fst (store world_cached))
   \<and> pointer (store world_cached) \<noteq> cacheKey example_resolved
   \<and> fst (GetDeploySourceKey example_remote
            (no_faults\<lparr>pointer_write_err := Some (External ''disk full'')\<rparr>)
            example_resolved world_cached) \<noteq> Inr (cacheKey example_resolved)
   \<and> pointer (store (snd (GetDeploySourceKey example_remote
            (no_faults\<lparr>pointer_write_err := Some (External ''disk full'')\<rparr>)
            example_resolved world_cached))) \<noteq> cacheKey example_resolved"
  by (simp add: GetDeploySourceKey_eq kvs_List_def no_faults_def world_cached_def
      example_resolved_def pointer_def kvs_Read_def cache_Write_def kvs_Write_def)

lemma net_events_count:
  "length (filter is_download (net_events cl g)) = 1"
  "length (filter is_http_get (net_events cl g)) \<le> 1"
  by (auto simp: net_events_def is_download_def is_http_get_def split: sum.splits prod.splits)

lemma GetDeploySourceKey_absent:
  assumes "kvs_List (list_err f) (store w) = Inr list" and "cacheKey g \<notin> set list"
  shows "GetDeploySourceKey cl f g w =
     (let w2 = w\<lparr>trace := trace w @ [CacheRead ''current.txt'', CacheList] @ net_events cl g\<rparr> in
      case asset_bytes cl g of
        Inl err \<Rightarrow> (Inl err, w2)
      | Inr buf \<Rightarrow>
          (case asset_write_err f of
             Some err \<Rightarrow> (Inl err, w2\<lparr>trace := trace w2 @ [CacheWrite (cacheKey g) buf]\<rparr>)
           | None \<Rightarrow>
               (case pointer_write_err f of
                  Some err \<Rightarrow>
                    (Inl err, w2\<lparr>store := kvs_put (cacheKey g) buf (store w),
                                 trace := trace w2 @ [CacheWrite (cacheKey g) buf,
                                                      CacheWrite ''current.txt'' (cacheKey g)]\<rparr>)
                | None \<Rightarrow>
                    (Inr (cacheKey g),
                     w2\<lparr>store := kvs_put ''current.txt'' (cacheKey g)
                                    (kvs_put (cacheKey g) buf (store w)),
                         trace := trace w2 @ [CacheWrite (cacheKey g) buf,
                                              CacheWrite ''current.txt'' (cacheKey g)]\<rparr>))))"
  using assms
  by (simp add: GetDeploySourceKey_eq download_eq cache_Write_def kvs_Write_def Let_def
           split: sum.splits option.splits)

text \<open>
  Claim C3, as amended. When the listing does not hold the fresh key,
  \<^verbatim>\<open>GetDeploySourceKey\<close> calls \<open>DownloadReleaseAsset\<close> exactly once and
  requests at most one redirect address. If the bytes arrive and both writes
  succeed, the bytes are written under the fresh key, then the fresh key is
  written under \<^verbatim>\<open>current.txt\<close>, in this order, and the fresh key is
  returned. If the download fails, its error is returned and nothing is written;
  if the write of the bytes fails, its error is returned and the pointer is not
  written; if the write of the pointer fails, its error is returned with the
  bytes already stored.
\<close>

theorem C3_download_then_point:
  assumes "kvs_List (list_err f) (store w) = Inr list" and "cacheKey g \<notin> set list"
  shows "length (filter is_download (added w (snd (GetDeploySourceKey cl f g w)))) = 1
       \<and> length (filter is_http_get (added w (snd (GetDeploySourceKey cl f g w)))) \<le> 1
       \<and> (\<forall>buf. asset_bytes cl g = Inr buf \<and> asset_write_err f = None
                 \<and> pointer_write_err f = None \<longrightarrow>
            GetDeploySourceKey cl f g w =
              (Inr (cacheKey g),
               w\<lparr>store := kvs_put ''current.txt'' (cacheKey g) (kvs_put (cacheKey g) buf (store w)),
                  trace := trace w @ [CacheRead ''current.txt'', CacheList] @ net_events cl g
                             @ [CacheWrite (cacheKey g) buf,
                                CacheWrite ''current.txt'' (cacheKey g)]\<rparr>))
       \<and> (\<forall>err. asset_bytes cl g = Inl err \<longrightarrow>
            GetDeploySourceKey cl f g w =
              (Inl err,
               w\<lparr>trace := trace w @ [CacheRead ''current.txt'', CacheList] @ net_events cl g\<rparr>))
       \<and> (\<forall>buf err. asset_bytes cl g = Inr buf \<and> asset_write_err f = Some err \<longrightarrow>
            GetDeploySourceKey cl f g w =
              (Inl err,
               w\<lparr>trace := trace w @ [CacheRead ''current.txt'', CacheList] @ net_events cl g
                             @ [CacheWrite (cacheKey g) buf]\<rparr>))
       \<and> (\<forall>buf err. asset_bytes cl g = Inr buf \<and> asset_write_err f = None
                 \<and> pointer_write_err f = Some err \<longrightarrow>
            GetDeploySourceKey cl f g w =
              (Inl err,
               w\<lparr>store := kvs_put (cacheKey g) buf (store w),
                  trace := trace w @ [CacheRead ''current.txt'', CacheList] @ net_events cl g
                             @ [CacheWrite (cacheKey g) buf,
                                CacheWrite ''current.txt'' (cacheKey g)]\<rparr>))"
proof -
  note r = GetDeploySourceKey_absent[OF assms, of cl]
  have cnt: "length (filter is_download (added w (snd (GetDeploySourceKey cl f g w)))) = 1"
    unfolding r using net_events_count(1)[of cl g]
    by (simp add: Let_def added_def is_download_def split: sum.splits option.splits)
  have gets: "length (filter is_http_get (added w (snd (GetDeploySourceKey cl f g w)))) \<le> 1"
    unfolding r using net_events_count(2)[of cl g]
    by (simp add: Let_def added_def is_http_get_def split: sum.splits option.splits)
  have ok: "\<forall>buf. asset_bytes cl g = Inr buf \<and> asset_write_err f = None
                 \<and> pointer_write_err f = None \<longrightarrow>
            GetDeploySourceKey cl f g w =
              (Inr (cacheKey g),
               w\<lparr>store := kvs_put ''current.txt'' (cacheKey g) (kvs_put (cacheKey g) buf (store w)),
                  trace := trace w @ [CacheRead ''current.txt'', CacheList] @ net_events cl g
                             @ [CacheWrite (cacheKey g) buf,
                                CacheWrite ''current.txt'' (cacheKey g)]\<rparr>)"
    unfolding r by (simp add: Let_def)
  have e1: "\<forall>err. asset_bytes cl g = Inl err \<longrightarrow>
            GetDeploySourceKey cl f g w =
              (Inl err,
               w\<lparr>trace := trace w @ [CacheRead ''current.txt'', CacheList] @ net_events cl g\<rparr>)"
    unfolding r by (simp add: Let_def)
  have e2: "\<forall>buf err. asset_bytes cl g = Inr buf \<and> asset_write_err f = Some err \<longrightarrow>
            GetDeploySourceKey cl f g w =
              (Inl err,
               w\<lparr>trace := trace w @ [CacheRead ''current.txt'', CacheList] @ net_events cl g
                             @ [CacheWrite (cacheKey g) buf]\<rparr>)"
    unfolding r by (simp add: Let_def)
  have e3: "\<forall>buf err. asset_bytes cl g = Inr buf \<and> asset_write_err f = None
                 \<and> pointer_write_err f = Some err \<longrightarrow>
            GetDeploySourceKey cl f g w =
              (Inl err,
               w\<lparr>store := kvs_put (cacheKey g) buf (store w),
                  trace := trace w @ [CacheRead ''current.txt'', CacheList] @ net_events cl g
                             @ [CacheWrite (cacheKey g) buf,
                                CacheWrite ''current.txt'' (cacheKey g)]\<rparr>)"
    unfolding r by (simp add: Let_def)
  from cnt gets ok e1 e2 e3 show ?thesis by blast
qed

lemma example_facts:
  "kvs_List (list_err no_faults) (store world_empty) = Inr []"
  "kvs_List (list_err (no_faults\<lparr>asset_write_err := e1\<rparr>)) (store world_empty) = Inr []"
  "kvs_List (list_err (no_faults\<lparr>pointer_write_err := e2\<rparr>)) (store world_empty) = Inr []"
  "asset_bytes example_remote example_resolved = Inr ''archive bytes''"
  "asset_bytes redirect_remote example_resolved = Inr ''archive bytes''"
  "asset_bytes down_remote example_resolved = Inl (External ''unreachable'')"
  "net_events example_remote example_resolved = [DownloadAsset ''k1LoW'' ''dewy'' 2]"
  "net_events redirect_remote example_resolved =
     [DownloadAsset ''k1LoW'' ''dewy'' 2, HttpGet ''https://objects.example/app'']"
  "net_events down_remote example_resolved = [DownloadAsset ''k1LoW'' ''dewy'' 2]"
  by (simp_all add: kvs_List_def no_faults_def world_empty_def asset_bytes_def net_events_def
      example_remote_def redirect_remote_def down_remote_def example_resolved_def
      example_release_def)

text \<open>
  The theorem of C3 at an empty store: a download through a redirect that
  succeeds, a remote host that is down, and a failure of either write.
\<close>

theorem C3_download_then_point_witness:
  "GetDeploySourceKey redirect_remote no_faults example_resolved world_empty =
     (Inr example_key,
      \<lparr>store = [(example_key, ''archive bytes''), (''current.txt'', example_key)],
       trace = [CacheRead ''current.txt'', CacheList, DownloadAsset ''k1LoW'' ''dewy'' 2,
                HttpGet ''https://objects.example/app'',
                CacheWrite example_key ''archive bytes'',
                CacheWrite ''current.txt'' example_key]\<rparr>)
   \<and> fst (GetDeploySourceKey down_remote no_faults example_resolved world_empty) =
       Inl (External ''unreachable'')
   \<and> fst (GetDeploySourceKey example_remote
            (no_faults\<lparr>asset_write_err := Some (External ''disk full'')\<rparr>)
            example_resolved world_empty) = Inl (External ''disk full'')
   \<and> fst (GetDeploySourceKey example_remote
            (no_faults\<lparr>pointer_write_err := Some (External ''disk full'')\<rparr>)
            example_resolved world_empty) = Inl (External ''disk full'')"
proof -
  have n: "cacheKey example_resolved \<notin> set []" by simp
  have f: "asset_write_err no_faults = None" "pointer_write_err no_faults = None"
    by (simp_all add: no_faults_def)
  have 1: "GetDeploySourceKey redirect_remote no_faults example_resolved world_empty =
     (Inr example_key,
      \<lparr>store = [(example_key, ''archive bytes''), (''current.txt'', example_key)],
       trace = [CacheRead ''current.txt'', CacheList, DownloadAsset ''k1LoW'' ''dewy'' 2,
                HttpGet ''https://objects.example/app'',
                CacheWrite example_key ''archive bytes'',
                CacheWrite ''current.txt'' example_key]\<rparr>)"
    using C3_download_then_point[OF example_facts(1) n, of redirect_remote] f
    by (simp add: example_facts) (simp add: world_empty_def example_resolved_def kvs_put_def)
  have 2: "fst (GetDeploySourceKey down_remote no_faults example_resolved world_empty) =
       Inl (External ''unreachable'')"
    using C3_download_then_point[OF example_facts(1) n, of down_remote]
    by (simp add: example_facts)
  have 3: "fst (GetDeploySourceKey example_remote
            (no_faults\<lparr>asset_write_err := Some (External ''disk full'')\<rparr>)
            example_resolved world_empty) = Inl (External ''disk full'')"
    using C3_download_then_point[OF example_facts(2) n, of example_remote]
    by (simp add: example_facts)
  have 4: "fst (GetDeploySourceKey example_remote
            (no_faults\<lparr>pointer_write_err := Some (External ''disk full'')\<rparr>)
            example_resolved world_empty) = Inl (External ''disk full'')"
    using C3_download_then_point[OF example_facts(3) n, of example_remote]
    by (simp add: example_facts no_faults_def)
  from 1 2 3 4 show ?thesis by simp
qed

text \<open>
  Claim C3 as stated fails: the fresh key is not listed, the remote host is
  unreachable, and the call returns the error instead of the key; nothing is
  stored and the pointer is not written. Nor is the key returned when the
  write of the bytes or the write of the pointer fails.
\<close>

theorem C3_counterexample:
  "cacheKey example_resolved \<notin> set (map fst (store world_empty))
   \<and> fst (GetDeploySourceKey down_remote no_faults example_resolved world_empty)
       \<noteq> Inr (cacheKey example_resolved)
   \<and> store (snd (GetDeploySourceKey down_remote no_faults example_resolved world_empty)) = []
   \<and> fst (GetDeploySourceKey example_remote
            (no_faults\<lparr>asset_write_err := Some (External ''disk full'')\<rparr>)
            example_resolved world_empty) \<noteq> Inr (cacheKey example_resolved)
   \<and> fst (GetDeploySourceKey example_remote
            (no_faults\<lparr>pointer_write_err := Some (External ''disk full'')\<rparr>)
            example_resolved world_empty) \<noteq> Inr (cacheKey example_resolved)"
proof -
  have n: "cacheKey example_resolved \<notin> set []" by simp
  note r = GetDeploySourceKey_absent[OF example_facts(1) n, of down_remote]
  note r2 = GetDeploySourceKey_absent[OF example_facts(2)[of "Some (External ''disk full'')"] n,
      of example_remote]
  note r3 = GetDeploySourceKey_absent[OF example_facts(3)[of "Some (External ''disk full'')"] n,
      of example_remote]
  have 1: "fst (GetDeploySourceKey down_remote no_faults example_resolved world_empty)
             \<noteq> Inr (cacheKey example_resolved)
         \<and> store (snd (GetDeploySourceKey down_remote no_faults example_resolved world_empty)) = []"
    unfolding r by (simp add: example_facts) (simp add: world_empty_def)
  have 2: "fst (GetDeploySourceKey example_remote
            (no_faults\<lparr>asset_write_err := Some (External ''disk full'')\<rparr>)
            example_resolved world_empty) \<noteq> Inr (cacheKey example_resolved)"
    unfolding r2 by (simp add: example_facts)
  have 3: "fst (GetDeploySourceKey example_remote
            (no_faults\<lparr>pointer_write_err := Some (External ''disk full'')\<rparr>)
            example_resolved world_empty) \<noteq> Inr (cacheKey example_resolved)"
    unfolding r3 by (simp add: example_facts no_faults_def)
  from 1 2 3 show ?thesis by (simp add: world_empty_def)
qed

subsection \<open>Fetch\<close>

lemma NewGithubRelease_example:
  "NewGithubRelease None ''k1LoW'' ''dewy'' ''app-linux.tar.gz'' pre = Inr (example_new pre)"
  by (simp add: NewGithubRelease_def example_new_def)

lemma latest_loop_non_draft:
  "\<exists>v \<in> set rr. Draft v = Some False \<Longrightarrow>
     latest_loop r rr = Panic \<or> latest_loop r rr = Return (Some r)"
  by (induction rr) (auto split: option.splits)

text \<open>
  Claim C6 (a defect of the code). In pre-release mode, when the first page of
  the release list holds a release that is not a draft, \<^verbatim>\<open>latest\<close> never
  returns a release: its loop returns the nil pointer \<^verbatim>\<open>r\<close> with no error
  (or panics on a nil draft flag before that), and \<^verbatim>\<open>Fetch\<close> panics when it
  dereferences the result. No release is selected and no field is set.
\<close>

theorem C6_prerelease_fetch_panics:
  assumes "prerelease g" and "ListReleases cl (owner g) (name g) 1 = Inr rr"
    and "\<exists>v \<in> set rr. Draft v = Some False"
  shows "Fetch parse cl g = Panic
       \<and> (latest cl g = Panic \<or> latest cl g = Return (Inr None))"
proof -
  from latest_loop_non_draft[OF assms(3), of None]
  have l: "latest cl g = Panic \<or> latest cl g = Return (Inr None)"
    using assms(1,2) by (auto simp: latest_def)
  then have "Fetch parse cl g = Panic" by (auto simp: Fetch_def)
  with l show ?thesis by simp
qed

text \<open>
  The theorem of C6 at a first page that holds a draft and then a release that
  is not a draft and carries the artifact: \<^verbatim>\<open>Fetch\<close> panics.
\<close>

theorem C6_prerelease_fetch_panics_witness:
  "Fetch go_parse prerelease_remote (example_new True) = Panic"
proof -
  have a: "prerelease (example_new True)" by (simp add: example_new_def)
  have b: "ListReleases prerelease_remote (owner (example_new True)) (name (example_new True)) 1
             = Inr [draft_release, candidate_release]"
    by (simp add: prerelease_remote_def)
  have c: "\<exists>v \<in> set [draft_release, candidate_release]. Draft v = Some False"
    by (simp add: candidate_release_def)
  from C6_prerelease_fetch_panics[OF a b c, of go_parse] show ?thesis by simp
qed

lemma asset_loop_no_match:
  "\<forall>v \<in> set as. \<exists>n. asset_Name v = Some n \<and> n \<noteq> artifact g \<Longrightarrow>
     asset_loop release g as = Return g"
  by (induction as) auto

text \<open>
  Claim C7, as amended. When no asset of the release has the configured
  artifact's name, \<^verbatim>\<open>Fetch\<close> does not fail for that reason: it records the
  release id and page address, leaves the download address, the tag, the asset
  id and the timestamp as they were, and returns what \<^verbatim>\<open>setCacheKey\<close>
  returns for the address it had before; this is success whenever that address
  parses, and the parser's error otherwise.
\<close>

theorem C7_no_matching_asset:
  assumes "latest cl g = Return (Inr (Some release))"
    and "release_ID release = Some i" and "HTMLURL release = Some u"
    and "\<forall>v \<in> set (Assets release). \<exists>n. asset_Name v = Some n \<and> n \<noteq> artifact g"
  shows "Fetch parse cl g = Return (setCacheKey parse (g\<lparr>releaseID := i, releaseURL := u\<rparr>))
       \<and> (\<forall>pu. parse (downloadURL g) = Inr pu \<longrightarrow>
            (\<exists>g'. Fetch parse cl g = Return (None, g')
                \<and> downloadURL g' = downloadURL g \<and> releaseTag g' = releaseTag g
                \<and> assetID g' = assetID g \<and> updatedAt g' = updatedAt g
                \<and> releaseID g' = i \<and> releaseURL g' = u))
       \<and> (\<forall>err. parse (downloadURL g) = Inl err \<longrightarrow>
            Fetch parse cl g = Return (Some err, g\<lparr>releaseID := i, releaseURL := u\<rparr>))"
proof -
  have l: "asset_loop release (g\<lparr>releaseID := i, releaseURL := u\<rparr>) (Assets release)
             = Return (g\<lparr>releaseID := i, releaseURL := u\<rparr>)"
    using assms(4) by (intro asset_loop_no_match) simp
  have r: "Fetch parse cl g = Return (setCacheKey parse (g\<lparr>releaseID := i, releaseURL := u\<rparr>))"
    using assms(1-3) l by (simp add: Fetch_def)
  show ?thesis unfolding r by (auto simp: setCacheKey_def)
qed

text \<open>
  The theorem of C7 at a fresh struct and a latest release that carries the
  artifact of another platform only: \<^verbatim>\<open>Fetch\<close> returns nil, with a cache key
  made of the empty address and the zero timestamp.
\<close>

theorem C7_no_matching_asset_witness:
  "Fetch go_parse darwin_only_remote (example_new False) =
     Return (None, (example_new False)\<lparr>releaseID := 1,
        releaseURL := ''https://github.com/k1LoW/dewy/releases/tag/v1.2.3-rc1'',
        cacheKey := ''---62135596800--''\<rparr>)"
proof -
  have a: "latest darwin_only_remote (example_new False) = Return (Inr (Some darwin_only_release))"
    by (simp add: latest_def darwin_only_remote_def example_remote_def example_new_def)
  have b: "release_ID darwin_only_release = Some 1"
    "HTMLURL darwin_only_release = Some ''https://github.com/k1LoW/dewy/releases/tag/v1.2.3-rc1''"
    by (simp_all add: darwin_only_release_def candidate_release_def)
  have c: "\<forall>v \<in> set (Assets darwin_only_release).
             \<exists>n. asset_Name v = Some n \<and> n \<noteq> artifact (example_new False)"
    by (simp add: darwin_only_release_def candidate_release_def darwin_asset_def example_new_def)
  have t: "fmt_d (- 62135596800) = ''-62135596800''"
    by (simp add: fmt_d_def fmt_nat.simps digit_def)
  from C7_no_matching_asset[OF a b c, of go_parse]
  have "Fetch go_parse darwin_only_remote (example_new False) =
     Return (setCacheKey go_parse ((example_new False)\<lparr>releaseID := 1,
        releaseURL := ''https://github.com/k1LoW/dewy/releases/tag/v1.2.3-rc1''\<rparr>))"
    by simp
  also have "\<dots> = Return (None, (example_new False)\<lparr>releaseID := 1,
        releaseURL := ''https://github.com/k1LoW/dewy/releases/tag/v1.2.3-rc1'',
        cacheKey := ''---62135596800--''\<rparr>)"
    by (simp add: setCacheKey_def go_parse_def example_new_def Sprintf_key_def t
        Replace_all_char)
  finally show ?thesis .
qed

text \<open>
  Claim C7 as stated fails: the latest release has no asset named as the
  artifact, and \<^verbatim>\<open>Fetch\<close> returns nil, not an error.
\<close>

theorem C7_counterexample:
  "filter (\<lambda>v. asset_Name v = Some (artifact (example_new False))) (Assets darwin_only_release) = []
   \<and> latest darwin_only_remote (example_new False) = Return (Inr (Some darwin_only_release))
   \<and> (\<exists>g'. Fetch go_parse darwin_only_remote (example_new False) = Return (None, g'))"
  by (simp add: Fetch_def latest_def darwin_only_remote_def example_remote_def example_new_def
      darwin_only_release_def candidate_release_def darwin_asset_def setCacheKey_def go_parse_def)

subsection \<open>deploy and preserve\<close>

lemma slot_neq_link: "slot_of d now \<noteq> link_of d"
  by (auto simp: slot_of_def link_of_def filepath_Join_def releasesDir_def symlinkDir_def)

lemma preserve_eq:
  "preserve d os now p fs =
     (case mkdir_err os of
        Some err \<Rightarrow> (Inl err, fs)
      | None \<Rightarrow>
          (let fs1 = (if fs (slot_of d now) = None then fs(slot_of d now \<mapsto> Dir) else fs) in
           case extract_err os of
             Some err \<Rightarrow> (Inl err, fs1)
           | None \<Rightarrow> (Inr (slot_of d now), fs1(slot_of d now \<mapsto> Slot p))))"
  by (auto simp: preserve_def os_MkdirAll_def ExtractArchive_def slot_of_def Let_def
           split: option.splits)

lemma preserve_link:
  "snd (preserve d os now p fs) (link_of d) = fs (link_of d)"
  using slot_neq_link[of d now]
  by (auto simp: preserve_eq Let_def split: option.splits)

lemma preserve_Inr:
  "fst (preserve d os now p fs) = Inr dst \<Longrightarrow>
     dst = slot_of d now \<and> snd (preserve d os now p fs) dst = Some (Slot p)
     \<and> mkdir_err os = None \<and> extract_err os = None"
  by (auto simp: preserve_eq Let_def split: option.splits)

lemma preserve_Inl:
  "fst (preserve d os now p fs) = Inl err \<Longrightarrow>
     mkdir_err os = Some err \<or> (mkdir_err os = None \<and> extract_err os = Some err)"
  by (auto simp: preserve_eq Let_def split: option.splits)

lemma deploy_preserve_fails:
  "fst (preserve d os now (archive_of d key) fs) = Inl err \<Longrightarrow>
     deploy d os now key fs = (Some err, snd (preserve d os now (archive_of d key) fs))"
  by (cases "preserve d os now (archive_of d key) fs")
     (auto simp: deploy_def archive_of_def Let_def)

lemma deploy_preserve_ok:
  "fst (preserve d os now (archive_of d key) fs) = Inr dst \<Longrightarrow>
     deploy d os now key fs =
       (let fs1 = snd (preserve d os now (archive_of d key) fs);
            fs2 = (if fs1 (link_of d) \<noteq> None \<and> remove_err os = None
                   then fs1(link_of d := None) else fs1)
        in if fs2 (link_of d) \<noteq> None then (Some (External ''file exists''), fs2)
           else case symlink_err os of
                  Some err \<Rightarrow> (Some err, fs2)
                | None \<Rightarrow> (None, fs2(link_of d \<mapsto> Symlink dst)))"
  by (cases "preserve d os now (archive_of d key) fs")
     (auto simp: deploy_def archive_of_def link_of_def Let_def os_Lstat_def os_Remove_def
        os_Symlink_def split: option.splits)

text \<open>
  Claim C8. \<^verbatim>\<open>deploy\<close> touches the link only after the slot is populated.
  If the slot cannot be made, the error is returned and the file system is as it
  was; if the extraction fails, the error is returned and the link is as it
  was. Whenever the link differs after the call from what it was before, the
  directory was made, the extraction succeeded and the slot holds the extracted
  archive. When \<^verbatim>\<open>deploy\<close> returns nil the link points to the new slot, and
  it does so whenever no call of the operating system fails.
\<close>

theorem C8_link_after_slot:
  "(\<forall>err. mkdir_err os = Some err \<longrightarrow> deploy d os now key fs = (Some err, fs))
   \<and> (\<forall>err. mkdir_err os = None \<and> extract_err os = Some err \<longrightarrow>
         fst (deploy d os now key fs) = Some err
         \<and> snd (deploy d os now key fs) (link_of d) = fs (link_of d))
   \<and> (snd (deploy d os now key fs) (link_of d) \<noteq> fs (link_of d) \<longrightarrow>
         mkdir_err os = None \<and> extract_err os = None
         \<and> snd (deploy d os now key fs) (slot_of d now) = Some (Slot (archive_of d key)))
   \<and> (fst (deploy d os now key fs) = None \<longrightarrow>
         snd (deploy d os now key fs) (link_of d) = Some (Symlink (slot_of d now))
         \<and> snd (deploy d os now key fs) (slot_of d now) = Some (Slot (archive_of d key)))
   \<and> (mkdir_err os = None \<and> extract_err os = None \<and> remove_err os = None
         \<and> symlink_err os = None \<longrightarrow> fst (deploy d os now key fs) = None)"
proof (cases "fst (preserve d os now (archive_of d key) fs)")
  case (Inl err)
  note f = deploy_preserve_fails[OF Inl]
  from preserve_Inl[OF Inl] show ?thesis
    unfolding f using preserve_link[of d os now "archive_of d key" fs]
    by (auto simp: preserve_eq)
next
  case (Inr dst)
  note p = preserve_Inr[OF Inr]
  note l = preserve_link[of d os now "archive_of d key" fs]
  note n = slot_neq_link[of d now]
  from p l n show ?thesis
    unfolding deploy_preserve_ok[OF Inr]
    by (auto simp: Let_def split: option.splits)
qed

text \<open>
  The theorem of C8 on the example: a deploy that succeeds moves the link from
  the earlier slot to the new one; one whose extraction fails returns the error
  and leaves the link on the earlier slot.
\<close>

theorem C8_link_after_slot_witness:
  "fst (deploy example_dewy os_ok ''20230102T000000Z'' example_key fs_prior) = None
   \<and> snd (deploy example_dewy os_ok ''20230102T000000Z'' example_key fs_prior)
       [''/opt/app'', ''current''] =
       Some (Symlink [''/opt/app'', ''releases'', ''20230102T000000Z''])
   \<and> snd (deploy example_dewy os_ok ''20230102T000000Z'' example_key fs_prior)
       [''/opt/app'', ''releases'', ''20230102T000000Z''] =
       Some (Slot [''/var/cache/dewy'', example_key])
   \<and> fst (deploy example_dewy (os_ok\<lparr>extract_err := Some (External ''corrupt archive'')\<rparr>)
         ''20230102T000000Z'' example_key fs_prior) = Some (External ''corrupt archive'')
   \<and> snd (deploy example_dewy (os_ok\<lparr>extract_err := Some (External ''corrupt archive'')\<rparr>)
         ''20230102T000000Z'' example_key fs_prior) [''/opt/app'', ''current''] =
       Some (Symlink prior_slot)
   \<and> deploy example_dewy (os_ok\<lparr>mkdir_err := Some (External ''permission denied'')\<rparr>)
         ''20230102T000000Z'' example_key fs_prior = (Some (External ''permission denied''), fs_prior)"
proof -
  let ?now = "''20230102T000000Z''"
  let ?bad = "os_ok\<lparr>extract_err := Some (External ''corrupt archive'')\<rparr>"
  let ?worse = "os_ok\<lparr>mkdir_err := Some (External ''permission denied'')\<rparr>"
  have k: "example_key \<noteq> []" by (simp add: example_key_def)
  have paths: "link_of example_dewy = [''/opt/app'', ''current'']"
    "slot_of example_dewy ?now = [''/opt/app'', ''releases'', ?now]"
    "archive_of example_dewy example_key = [''/var/cache/dewy'', example_key]"
    using k by (simp_all add: link_of_def slot_of_def archive_of_def example_dewy_def
        filepath_Join_def symlinkDir_def releasesDir_def)
  have ok: "mkdir_err os_ok = None \<and> extract_err os_ok = None \<and> remove_err os_ok = None
            \<and> symlink_err os_ok = None"
    by (simp add: os_ok_def)
  have bad: "mkdir_err ?bad = None \<and> extract_err ?bad = Some (External ''corrupt archive'')"
    by (simp add: os_ok_def)
  have worse: "mkdir_err ?worse = Some (External ''permission denied'')"
    by (simp add: os_ok_def)
  have 1: "fst (deploy example_dewy os_ok ?now example_key fs_prior) = None"
    using C8_link_after_slot[of os_ok example_dewy ?now example_key fs_prior] ok by blast
  have 2: "snd (deploy example_dewy os_ok ?now example_key fs_prior) [''/opt/app'', ''current''] =
             Some (Symlink [''/opt/app'', ''releases'', ?now])
         \<and> snd (deploy example_dewy os_ok ?now example_key fs_prior)
             [''/opt/app'', ''releases'', ?now] = Some (Slot [''/var/cache/dewy'', example_key])"
    using C8_link_after_slot[of os_ok example_dewy ?now example_key fs_prior] 1
    unfolding paths by blast
  have 3: "fst (deploy example_dewy ?bad ?now example_key fs_prior) = Some (External ''corrupt archive'')
         \<and> snd (deploy example_dewy ?bad ?now example_key fs_prior) [''/opt/app'', ''current''] =
             Some (Symlink prior_slot)"
    using C8_link_after_slot[of ?bad example_dewy ?now example_key fs_prior] bad
    unfolding paths by (simp add: fs_prior_def)
  have 4: "deploy example_dewy ?worse ?now example_key fs_prior =
             (Some (External ''permission denied''), fs_prior)"
    using C8_link_after_slot[of ?worse example_dewy ?now example_key fs_prior] worse by blast
  from 1 2 3 4 show ?thesis by simp
qed

subsection \<open>A failed deploy after the pointer is written\<close>

lemma GetDeploySourceKey_returns_key:
  assumes "GetDeploySourceKey cl f g w = (Inr k, w')"
  shows "k = cacheKey g \<and> pointer (store w') = k \<and> k \<in> set (map fst (store w'))"
proof -
  from assms obtain list where l: "kvs_List (list_err f) (store w) = Inr list"
    by (auto simp: GetDeploySourceKey_eq Let_def split: sum.splits)
  show ?thesis
  proof (cases "cacheKey g \<in> set list")
    case True
    with assms l have "k = cacheKey g"
      and "store w' = kvs_put ''current.txt'' (cacheKey g) (store w)"
      by (auto simp: GetDeploySourceKey_eq cache_Write_def kvs_Write_def Let_def
               split: if_splits option.splits prod.splits)
    moreover from l True have "cacheKey g \<in> set (map fst (store w))"
      by (auto simp: kvs_List_def split: option.splits)
    ultimately show ?thesis
      by (simp only: pointer_kvs_put keys_kvs_put) simp
  next
    case False
    from assms have "k = cacheKey g \<and> (\<exists>buf. store w' =
        kvs_put ''current.txt'' (cacheKey g) (kvs_put (cacheKey g) buf (store w)))"
      unfolding GetDeploySourceKey_absent[OF l False]
      by (auto simp: Let_def split: sum.splits option.splits)
    then obtain buf where "k = cacheKey g"
      and "store w' = kvs_put ''current.txt'' (cacheKey g) (kvs_put (cacheKey g) buf (store w))"
      by blast
    then show ?thesis
      by (simp only: pointer_kvs_put keys_kvs_put) simp
  qed
qed

lemma GetDeploySourceKey_settled:
  assumes "pointer (store w) = cacheKey g" and "cacheKey g \<in> set (map fst (store w))"
  shows "GetDeploySourceKey cl f g w =
     (case list_err f of
        Some err \<Rightarrow> Inl err
      | None \<Rightarrow> Inl (Errorf ''No need to deploy''),
      w\<lparr>trace := trace w @ [CacheRead ''current.txt'', CacheList]\<rparr>)"
  using assms
  by (auto simp: GetDeploySourceKey_eq kvs_List_def Let_def split: option.splits)

lemma resolve_again_settled:
  assumes "pointer (store w) = k" and "k \<in> set (map fst (store w))"
    and "\<forall>(cl', f', g') \<in> set later. cacheKey g' = k"
  shows "\<forall>res \<in> set (resolve_again later w). \<exists>err. res = Inl err"
  using assms
proof (induction later arbitrary: w)
  case Nil
  then show ?case by simp
next
  case (Cons x later)
  obtain cl' f' g' where x: "x = (cl', f', g')" by (cases x)
  with Cons.prems have g: "cacheKey g' = k" by simp
  let ?w = "w\<lparr>trace := trace w @ [CacheRead ''current.txt'', CacheList]\<rparr>"
  have s: "GetDeploySourceKey cl' f' g' w =
     (case list_err f' of Some err \<Rightarrow> Inl err | None \<Rightarrow> Inl (Errorf ''No need to deploy''), ?w)"
    using Cons.prems(1,2) g by (intro GetDeploySourceKey_settled) simp_all
  have "\<forall>res \<in> set (resolve_again later ?w). \<exists>err. res = Inl err"
    using Cons.prems by (intro Cons.IH) simp_all
  then show ?case unfolding x by (simp add: s split: option.splits)
qed

lemma deploy_fails_early:
  assumes "mkdir_err os \<noteq> None \<or> extract_err os \<noteq> None"
  shows "fst (deploy d os now key fs) \<noteq> None
       \<and> snd (deploy d os now key fs) (link_of d) = fs (link_of d)"
proof (cases "fst (preserve d os now (archive_of d key) fs)")
  case (Inl err)
  show ?thesis
    unfolding deploy_preserve_fails[OF Inl]
    using preserve_link[of d os now "archive_of d key" fs] by simp
next
  case (Inr dst)
  from preserve_Inr[OF Inr] assms show ?thesis by simp
qed

text \<open>
  Claim C10, as amended. \<^verbatim>\<open>GetDeploySourceKey\<close> has written the pointer when
  it returns a key \<open>k\<close>. If the \<^verbatim>\<open>deploy\<close> of \<open>k\<close> then fails in making the
  slot or in extracting the archive, the pointer names \<open>k\<close> while the link is
  what it was before. On that store no later cycle that resolves to \<open>k\<close>
  returns a key, so the deploy is not tried again: such a cycle returns "No need
  to deploy" when its listing succeeds, and the listing's error otherwise, and
  leaves the store as it is.
\<close>

theorem C10_failed_deploy_not_retried:
  assumes "GetDeploySourceKey cl f g w = (Inr k, w')"
    and "mkdir_err os \<noteq> None \<or> extract_err os \<noteq> None"
    and "\<forall>(cl', f', g') \<in> set later. cacheKey g' = k"
  shows "fst (deploy d os now k fs) \<noteq> None
       \<and> pointer (store w') = k
       \<and> snd (deploy d os now k fs) (link_of d) = fs (link_of d)
       \<and> (\<forall>res \<in> set (resolve_again later w'). \<exists>err. res = Inl err)
       \<and> (\<forall>cl' f' g'. cacheKey g' = k \<longrightarrow>
            GetDeploySourceKey cl' f' g' w' =
              (case list_err f' of
                 Some err \<Rightarrow> Inl err
               | None \<Rightarrow> Inl (Errorf ''No need to deploy''),
               w'\<lparr>trace := trace w' @ [CacheRead ''current.txt'', CacheList]\<rparr>))"
proof -
  note r = GetDeploySourceKey_returns_key[OF assms(1)]
  from r have p: "pointer (store w') = k" by blast
  from r have m: "k \<in> set (map fst (store w'))" by blast
  note d = deploy_fails_early[OF assms(2), of d now k fs]
  note a = resolve_again_settled[OF p m assms(3)]
  have s: "\<forall>cl' f' g'. cacheKey g' = k \<longrightarrow>
            GetDeploySourceKey cl' f' g' w' =
              (case list_err f' of
                 Some err \<Rightarrow> Inl err
               | None \<Rightarrow> Inl (Errorf ''No need to deploy''),
               w'\<lparr>trace := trace w' @ [CacheRead ''current.txt'', CacheList]\<rparr>)"
  proof (intro allI impI)
    fix cl' :: remote and f' :: faults and g' :: GithubRelease
    assume g: "cacheKey g' = k"
    from p g have a: "pointer (store w') = cacheKey g'" by simp
    from m g have b: "cacheKey g' \<in> set (map fst (store w'))" by simp
    show "GetDeploySourceKey cl' f' g' w' =
              (case list_err f' of
                 Some err \<Rightarrow> Inl err
               | None \<Rightarrow> Inl (Errorf ''No need to deploy''),
               w'\<lparr>trace := trace w' @ [CacheRead ''current.txt'', CacheList]\<rparr>)"
      by (rule GetDeploySourceKey_settled[OF a b])
  qed
  from d p a s show ?thesis by blast
qed

lemma example_download:
  "fst (GetDeploySourceKey example_remote no_faults example_resolved world_empty) = Inr example_key"
proof -
  have n: "cacheKey example_resolved \<notin> set []" by simp
  have f: "asset_write_err no_faults = None" "pointer_write_err no_faults = None"
    by (simp_all add: no_faults_def)
  have k: "cacheKey example_resolved = example_key" by (simp add: example_resolved_def)
  show ?thesis
    unfolding GetDeploySourceKey_absent[OF example_facts(1) n, of example_remote]
    by (simp add: example_facts(4) f k Let_def)
qed

text \<open>
  The theorem of C10 on the example: the artifact is downloaded into an empty
  store, its extraction fails, the link stays on the earlier slot, and the next
  cycle finds nothing to deploy.
\<close>

theorem C10_failed_deploy_not_retried_witness:
  "fst (GetDeploySourceKey example_remote no_faults example_resolved world_empty) = Inr example_key
   \<and> fst (deploy example_dewy (os_ok\<lparr>extract_err := Some (External ''corrupt archive'')\<rparr>)
         ''20230102T000000Z'' example_key fs_prior) \<noteq> None
   \<and> pointer (store (snd (GetDeploySourceKey example_remote no_faults example_resolved
         world_empty))) = example_key
   \<and> snd (deploy example_dewy (os_ok\<lparr>extract_err := Some (External ''corrupt archive'')\<rparr>)
         ''20230102T000000Z'' example_key fs_prior) (link_of example_dewy)
       = Some (Symlink prior_slot)
   \<and> resolve_again [(example_remote, no_faults, example_resolved)]
        (snd (GetDeploySourceKey example_remote no_faults example_resolved world_empty))
       = [Inl (Errorf ''No need to deploy'')]"
proof -
  let ?bad = "os_ok\<lparr>extract_err := Some (External ''corrupt archive'')\<rparr>"
  let ?w' = "snd (GetDeploySourceKey example_remote no_faults example_resolved world_empty)"
  let ?later = "[(example_remote, no_faults, example_resolved)]"
  note example_download
  then have a: "GetDeploySourceKey example_remote no_faults example_resolved world_empty
          = (Inr example_key, ?w')"
    by (simp add: prod_eq_iff)
  have b: "mkdir_err ?bad \<noteq> None \<or> extract_err ?bad \<noteq> None" by (simp add: os_ok_def)
  have c: "\<forall>(cl', f', g') \<in> set ?later. cacheKey g' = example_key"
    by (simp add: example_resolved_def)
  have l: "fs_prior (link_of example_dewy) = Some (Symlink prior_slot)"
    by (simp add: fs_prior_def link_of_def example_dewy_def filepath_Join_def symlinkDir_def)
  have k: "cacheKey example_resolved = example_key \<and> list_err no_faults = None"
    by (simp add: example_resolved_def no_faults_def)
  note t = C10_failed_deploy_not_retried[OF a b c, of example_dewy "''20230102T000000Z''" fs_prior]
  from t have t1: "fst (deploy example_dewy ?bad ''20230102T000000Z'' example_key fs_prior) \<noteq> None"
    by blast
  from t have t2: "pointer (store ?w') = example_key" by blast
  from t l have t3: "snd (deploy example_dewy ?bad ''20230102T000000Z'' example_key fs_prior)
      (link_of example_dewy) = Some (Symlink prior_slot)"
    by simp
  from t have "\<forall>cl' f' g'. cacheKey g' = example_key \<longrightarrow>
            GetDeploySourceKey cl' f' g' ?w' =
              (case list_err f' of
                 Some err \<Rightarrow> Inl err
               | None \<Rightarrow> Inl (Errorf ''No need to deploy''),
               ?w'\<lparr>trace := trace ?w' @ [CacheRead ''current.txt'', CacheList]\<rparr>)"
    by blast
  with k have r: "GetDeploySourceKey example_remote no_faults example_resolved ?w' =
      (Inl (Errorf ''No need to deploy''),
       ?w'\<lparr>trace := trace ?w' @ [CacheRead ''current.txt'', CacheList]\<rparr>)"
    by simp
  have t4: "resolve_again ?later ?w' = [Inl (Errorf ''No need to deploy'')]"
    by (simp add: r)
  from example_download t1 t2 t3 t4 show ?thesis by blast
qed

text \<open>
  Claim C10 as stated fails: \<^verbatim>\<open>GetDeploySourceKey\<close> returns the key, the slot
  is made and populated, the old link is removed, and then \<^verbatim>\<open>os.Symlink\<close>
  fails. \<^verbatim>\<open>deploy\<close> returns the error and the link no longer names the prior
  slot: there is no link. And a later cycle whose listing fails returns the
  listing's error, not "No need to deploy".
\<close>

theorem C10_counterexample:
  "fst (GetDeploySourceKey example_remote no_faults example_resolved world_empty) = Inr example_key
   \<and> fst (deploy example_dewy (os_ok\<lparr>symlink_err := Some (External ''no space left on device'')\<rparr>)
         ''20230102T000000Z'' example_key fs_prior) = Some (External ''no space left on device'')
   \<and> fs_prior (link_of example_dewy) = Some (Symlink prior_slot)
   \<and> snd (deploy example_dewy (os_ok\<lparr>symlink_err := Some (External ''no space left on device'')\<rparr>)
         ''20230102T000000Z'' example_key fs_prior) (link_of example_dewy) = None
   \<and> fst (GetDeploySourceKey example_remote
           (no_faults\<lparr>list_err := Some (External ''input/output error'')\<rparr>) example_resolved
           (snd (GetDeploySourceKey example_remote no_faults example_resolved world_empty)))
       = Inl (External ''input/output error'')"
proof -
  let ?os = "os_ok\<lparr>symlink_err := Some (External ''no space left on device'')\<rparr>"
  let ?now = "''20230102T000000Z''"
  note a = example_download
  have l: "fs_prior (link_of example_dewy) = Some (Symlink prior_slot)"
    by (simp add: fs_prior_def link_of_def example_dewy_def filepath_Join_def symlinkDir_def)
  have p: "fst (preserve example_dewy ?os ?now (archive_of example_dewy example_key) fs_prior)
             = Inr (slot_of example_dewy ?now)"
    by (simp add: preserve_eq os_ok_def Let_def)
  have q: "snd (preserve example_dewy ?os ?now (archive_of example_dewy example_key) fs_prior)
             (link_of example_dewy) = Some (Symlink prior_slot)"
    using preserve_link[of example_dewy ?os ?now "archive_of example_dewy example_key" fs_prior] l
    by simp
  have d: "fst (deploy example_dewy ?os ?now example_key fs_prior)
             = Some (External ''no space left on device'')
         \<and> snd (deploy example_dewy ?os ?now example_key fs_prior) (link_of example_dewy) = None"
    unfolding deploy_preserve_ok[OF p] using q by (simp add: Let_def os_ok_def)
  have e: "fst (GetDeploySourceKey example_remote
           (no_faults\<lparr>list_err := Some (External ''input/output error'')\<rparr>) example_resolved
           (snd (GetDeploySourceKey example_remote no_faults example_resolved world_empty)))
       = Inl (External ''input/output error'')"
    by (simp add: GetDeploySourceKey_eq[of example_remote
          "no_faults\<lparr>list_err := Some (External ''input/output error'')\<rparr>"]
        kvs_List_def Let_def)
  from a l d e show ?thesis by simp
qed

subsection \<open>The server life cycle\<close>

lemma Run_not_deployed:
  assumes "\<not> deployed c d fs" and "Run c d fs = (err, d', fs', ev)"
  shows "d' = d \<and> StartStarter \<notin> set ev \<and> SignalHUP \<notin> set ev"
  using assms
  by (auto simp: Run_def deployed_def Let_def split: option.splits sum.splits prod.splits if_splits)

lemma Run_deployed_server:
  assumes "deployed c d fs" and "config_Command d = SERVER" and "Run c d fs = (err, d', fs', ev)"
  shows "if isServerRunning d
         then d' = d \<and> err = signal_err c
              \<and> ev = [Notify (''New release <'' @ release_html_url c @ ''|''
                               @ release_tag c @ ''> was downloaded''),
                       Notify ''Server restarting'', SignalHUP, RecordShipping]
         else d' = d\<lparr>isServerRunning := True\<rparr> \<and> err = None
              \<and> ev = [Notify (''New release <'' @ release_html_url c @ ''|''
                               @ release_tag c @ ''> was downloaded''),
                       Notify ''Server starting'', StartStarter, RecordShipping]"
  using assms
  by (auto simp: Run_def deployed_def Let_def restartServer_def startServer_def
        finalizeDeploy_def split: option.splits sum.splits prod.splits if_splits)

lemma Run_command:
  "Run c d fs = (err, d', fs', ev) \<Longrightarrow> config_Command d' = config_Command d"
  by (auto simp: Run_def Let_def restartServer_def startServer_def
        split: option.splits sum.splits prod.splits if_splits)

lemma Run_report_ok:
  assumes "config_Command d = SERVER" and "Run c d fs = (err, d', fs', ev)"
  shows "cycle_ok \<lparr>found_running = isServerRunning d, did_deploy = deployed c d fs,
                   left_running = isServerRunning d', events = ev\<rparr>"
proof (cases "deployed c d fs")
  case True
  from Run_deployed_server[OF True assms] show ?thesis
    using True by (auto simp: cycle_ok_def split: if_splits)
next
  case False
  from Run_not_deployed[OF False assms(2)] show ?thesis
    using False by (auto simp: cycle_ok_def)
qed

lemma Runs_length: "length (Runs cs d fs) = length cs"
  by (induction cs arbitrary: d fs) (auto split: prod.splits)

lemma Runs_all_ok:
  "config_Command d = SERVER \<Longrightarrow> \<forall>r \<in> set (Runs cs d fs). cycle_ok r"
proof (induction cs arbitrary: d fs)
  case Nil
  then show ?case by simp
next
  case (Cons c cs)
  obtain err d' fs' ev where r: "Run c d fs = (err, d', fs', ev)" by (cases "Run c d fs") auto
  from Run_command[OF r] Cons.prems have "config_Command d' = SERVER" by simp
  from Cons.IH[OF this] Run_report_ok[OF Cons.prems r] show ?case by (simp add: r)
qed

lemma Runs_found:
  "config_Command d = SERVER \<Longrightarrow> i < length cs \<Longrightarrow>
     found_running (Runs cs d fs ! i) =
       (isServerRunning d \<or> (\<exists>j<i. did_deploy (Runs cs d fs ! j)))"
proof (induction cs arbitrary: d fs i)
  case Nil
  then show ?case by simp
next
  case (Cons c cs)
  obtain err d' fs' ev where r: "Run c d fs = (err, d', fs', ev)" by (cases "Run c d fs") auto
  from Run_command[OF r] Cons.prems have s: "config_Command d' = SERVER" by simp
  show ?case
  proof (cases i)
    case 0
    then show ?thesis by (simp add: r)
  next
    case (Suc n)
    with Cons.prems have n: "n < length cs" by simp
    note ih = Cons.IH[OF s n, of fs']
    have step: "isServerRunning d' = (isServerRunning d \<or> deployed c d fs)"
    proof (cases "deployed c d fs")
      case True
      from Run_deployed_server[OF True Cons.prems(1) r] True show ?thesis
        by (auto split: if_splits)
    next
      case False
      from Run_not_deployed[OF False r] False show ?thesis by simp
    qed
    have ex: "(\<exists>j<Suc n. did_deploy (Runs (c # cs) d fs ! j)) =
              (deployed c d fs \<or> (\<exists>j<n. did_deploy (Runs cs d' fs' ! j)))"
      by (auto simp: r less_Suc_eq_0_disj)
    show ?thesis unfolding Suc ex using ih step by (simp add: r)
  qed
qed

lemma Runs_chain:
  "Suc i < length cs \<Longrightarrow>
     found_running (Runs cs d fs ! Suc i) = left_running (Runs cs d fs ! i)"
proof (induction cs arbitrary: d fs i)
  case Nil
  then show ?case by simp
next
  case (Cons c cs)
  obtain err d' fs' ev where r: "Run c d fs = (err, d', fs', ev)" by (cases "Run c d fs") auto
  show ?case
  proof (cases i)
    case 0
    with Cons.prems obtain c' cs' where cs: "cs = c' # cs'" by (cases cs) auto
    show ?thesis unfolding 0 cs by (simp add: r split: prod.splits)
  next
    case (Suc n)
    with Cons.prems have "Suc n < length cs" by simp
    from Cons.IH[OF this, of d' fs'] show ?thesis unfolding Suc by (simp add: r)
  qed
qed

lemma deploy_os_ok: "fst (deploy d os_ok now key fs) = None"
proof -
  have p: "fst (preserve d os_ok now (archive_of d key) fs) = Inr (slot_of d now)"
    by (simp add: preserve_eq os_ok_def Let_def)
  show ?thesis
    unfolding deploy_preserve_ok[OF p] by (simp add: Let_def os_ok_def)
qed

lemma good_cycle_deployed: "deployed (good_cycle now) d fs"
  by (simp add: deployed_def good_cycle_def deploy_os_ok)

text \<open>
  Claim C9. In server mode, from the \<^verbatim>\<open>Dewy\<close> that \<^verbatim>\<open>New\<close> makes, in any
  sequence of cycles: a cycle finds the server running exactly when an earlier
  cycle of the sequence deployed, so the first cycle that deploys finds it not
  running and every later one finds it running. A cycle that deploys and finds
  the server not running sets the flag and starts the starter, and sends no
  signal; one that deploys and finds it running sends SIGHUP, does not start
  the starter, and leaves the flag set. A cycle that does not deploy does
  neither and leaves the flag as it found it. A flag found set is left set, and
  the next cycle finds the flag as this one left it: once running, always
  running.
\<close>

theorem C9_server_lifecycle:
  assumes "New SERVER kv_dir getwd = Return d"
  shows "\<forall>i < length cs.
           found_running (Runs cs d fs ! i) = (\<exists>j<i. did_deploy (Runs cs d fs ! j))
         \<and> cycle_ok (Runs cs d fs ! i)
         \<and> (Suc i < length cs \<longrightarrow>
              found_running (Runs cs d fs ! Suc i) = left_running (Runs cs d fs ! i))"
proof (intro allI impI)
  fix i assume i: "i < length cs"
  from assms have s: "config_Command d = SERVER" and n: "\<not> isServerRunning d"
    by (auto simp: New_def split: sum.splits)
  from Runs_found[OF s i, of fs] n
  have a: "found_running (Runs cs d fs ! i) = (\<exists>j<i. did_deploy (Runs cs d fs ! j))"
    by simp
  from i have "Runs cs d fs ! i \<in> set (Runs cs d fs)" by (simp add: Runs_length)
  with Runs_all_ok[OF s, of cs fs] have b: "cycle_ok (Runs cs d fs ! i)" by blast
  have c: "Suc i < length cs \<longrightarrow>
              found_running (Runs cs d fs ! Suc i) = left_running (Runs cs d fs ! i)"
    using Runs_chain[of i cs d fs] by blast
  from a b c show "found_running (Runs cs d fs ! i) = (\<exists>j<i. did_deploy (Runs cs d fs ! j))
         \<and> cycle_ok (Runs cs d fs ! i)
         \<and> (Suc i < length cs \<longrightarrow>
              found_running (Runs cs d fs ! Suc i) = left_running (Runs cs d fs ! i))"
    by blast
qed

text \<open>
  The theorem of C9 on two cycles that both deploy: the first finds the server
  not running and starts the starter, the second finds it running and sends
  SIGHUP without starting the starter again.
\<close>

theorem C9_server_lifecycle_witness:
  "\<not> found_running (Runs [good_cycle ''20230102T000000Z'', good_cycle ''20230102T000001Z'']
        example_dewy fs_prior ! 0)
   \<and> left_running (Runs [good_cycle ''20230102T000000Z'', good_cycle ''20230102T000001Z'']
        example_dewy fs_prior ! 0)
   \<and> StartStarter \<in> set (events (Runs [good_cycle ''20230102T000000Z'',
        good_cycle ''20230102T000001Z''] example_dewy fs_prior ! 0))
   \<and> found_running (Runs [good_cycle ''20230102T000000Z'', good_cycle ''20230102T000001Z'']
        example_dewy fs_prior ! 1)
   \<and> left_running (Runs [good_cycle ''20230102T000000Z'', good_cycle ''20230102T000001Z'']
        example_dewy fs_prior ! 1)
   \<and> SignalHUP \<in> set (events (Runs [good_cycle ''20230102T000000Z'',
        good_cycle ''20230102T000001Z''] example_dewy fs_prior ! 1))
   \<and> StartStarter \<notin> set (events (Runs [good_cycle ''20230102T000000Z'',
        good_cycle ''20230102T000001Z''] example_dewy fs_prior ! 1))"
proof -
  let ?cs = "[good_cycle ''20230102T000000Z'', good_cycle ''20230102T000001Z'']"
  let ?rs = "Runs ?cs example_dewy fs_prior"
  have new: "New SERVER ''/var/cache/dewy'' (Inr ''/opt/app'') = Return example_dewy"
    by (simp add: New_def example_dewy_def)
  note t = C9_server_lifecycle[OF new, of ?cs fs_prior]
  have d0: "did_deploy (?rs ! 0)" by (simp add: good_cycle_deployed split: prod.splits)
  have d1: "did_deploy (?rs ! 1)" by (simp add: good_cycle_deployed split: prod.splits)
  from t have f0: "found_running (?rs ! 0) = (\<exists>j<0. did_deploy (?rs ! j))"
    and k0: "cycle_ok (?rs ! 0)" by simp_all
  from t have f1: "found_running (?rs ! 1) = (\<exists>j<1. did_deploy (?rs ! j))"
    and k1: "cycle_ok (?rs ! 1)" by simp_all
  from f0 have n0: "\<not> found_running (?rs ! 0)" by simp
  from f1 d0 have n1: "found_running (?rs ! 1)" by simp
  from k0 d0 n0 have r0: "left_running (?rs ! 0) \<and> StartStarter \<in> set (events (?rs ! 0))"
    unfolding cycle_ok_def by blast
  from k1 d1 n1 have r1: "left_running (?rs ! 1) \<and> SignalHUP \<in> set (events (?rs ! 1))
      \<and> StartStarter \<notin> set (events (?rs ! 1))"
    unfolding cycle_ok_def by blast
  from n0 n1 r0 r1 show ?thesis by blast
qed

end
